theory Spec2Isabelle
  imports Complex_Main "HOL-Library.AList" "HOL-Library.Char_ord" "HOL-Library.List_Lexorder"
begin

section \<open>NRC-23: colour-magnitude comparison of PSF photometry\<close>

text \<open>
  A shallow embedding of the notebook \<^verbatim>\<open>NRC-23_cmd_psf_phot.ipynb\<close>. The notebook has
  no functions of its own: it is a sequence of cells. Each definition below embeds one
  expression, loop body or loop of a cell and carries the name of the variable the cell
  assigns.

  Floating-point numbers are modelled as \<^typ>\<open>real\<close>: the statements proved here are about
  which rows are selected and which formula fills a column, not about rounding.
  The external libraries are modelled by what the notebook relies on: a table is an
  ordered list of named columns, a Boolean mask selects the positions where it is true
  (\<^verbatim>\<open>x[mask]\<close> is \<^verbatim>\<open>x[mask.nonzero()]\<close>), an integer array selects the rows
  it lists, and every library exception is a value of type \<open>error\<close>.
\<close>

subsection \<open>Errors\<close>

datatype error =
  KeyError | IndexError | TypeError | ValueError | FileExistsError | FileNotFoundError

definition and_then :: "error + 'a \<Rightarrow> ('a \<Rightarrow> error + 'b) \<Rightarrow> error + 'b" where
  "and_then r k = (case r of Inl e \<Rightarrow> Inl e | Inr v \<Rightarrow> k v)"

text \<open>A \<^verbatim>\<open>for\<close> loop that appends one result per iteration; the first exception ends it.\<close>

fun for_each :: "('a \<Rightarrow> error + 'b) \<Rightarrow> 'a list \<Rightarrow> error + 'b list" where
  "for_each f [] = Inr []"
| "for_each f (x # xs) =
     and_then (f x) (\<lambda>y. and_then (for_each f xs) (\<lambda>ys. Inr (y # ys)))"

text \<open>\<^verbatim>\<open>xs[i]\<close> on a Python list, for a non-negative index.\<close>

definition list_get :: "'a list \<Rightarrow> nat \<Rightarrow> error + 'a" where
  "list_get xs i = (if i < length xs then Inr (xs ! i) else Inl IndexError)"

subsection \<open>Arrays, columns and tables\<close>

text \<open>A sky coordinate \<^verbatim>\<open>SkyCoord(ra, dec, unit='deg')\<close>: right ascension and declination.\<close>

type_synonym sky = "real \<times> real"

datatype column = NumCol "real list" | SkyCol "sky list"

type_synonym table = "(string \<times> column) list"

fun col_len :: "column \<Rightarrow> nat" where
  "col_len (NumCol xs) = length xs"
| "col_len (SkyCol ps) = length ps"

text \<open>\<^verbatim>\<open>len(t)\<close>: the length of the columns; a table without columns has no rows.\<close>

fun nrows :: "table \<Rightarrow> nat" where
  "nrows [] = 0"
| "nrows ((name, c) # t) = col_len c"

text \<open>The invariant of a table: all its columns have the same number of rows.\<close>

definition well_formed :: "table \<Rightarrow> bool" where
  "well_formed t = list_all (\<lambda>p. col_len (snd p) = nrows t) t"

text \<open>\<^verbatim>\<open>t[name]\<close>.\<close>

definition getitem :: "table \<Rightarrow> string \<Rightarrow> error + column" where
  "getitem t name = (case map_of t name of None \<Rightarrow> Inl KeyError | Some c \<Rightarrow> Inr c)"

text \<open>A column used as an array of numbers (in a comparison or in arithmetic).\<close>

definition numeric :: "table \<Rightarrow> string \<Rightarrow> error + real list" where
  "numeric t name =
     and_then (getitem t name)
       (\<lambda>c. case c of NumCol xs \<Rightarrow> Inr xs | SkyCol ps \<Rightarrow> Inl TypeError)"

text \<open>A column used as an array of sky coordinates.\<close>

definition coords :: "table \<Rightarrow> string \<Rightarrow> error + sky list" where
  "coords t name =
     and_then (getitem t name)
       (\<lambda>c. case c of SkyCol ps \<Rightarrow> Inr ps | NumCol xs \<Rightarrow> Inl TypeError)"

text \<open>\<^verbatim>\<open>mask.nonzero()\<close>: the positions where a Boolean array is true, in increasing order.\<close>

definition nonzero :: "bool list \<Rightarrow> nat list" where
  "nonzero m = filter (\<lambda>k. m ! k) [0..<length m]"

text \<open>\<^verbatim>\<open>xs[mask]\<close> on an array: the mask must have the length of the array.\<close>

definition mask_index :: "bool list \<Rightarrow> 'a list \<Rightarrow> error + 'a list" where
  "mask_index m xs =
     (if length m \<noteq> length xs then Inl IndexError
      else Inr (map (\<lambda>k. xs ! k) (nonzero m)))"

text \<open>\<^verbatim>\<open>xs[idx]\<close> on an array, \<open>idx\<close> an array of non-negative integers.\<close>

definition take_index :: "nat list \<Rightarrow> 'a list \<Rightarrow> error + 'a list" where
  "take_index idx xs =
     (if list_all (\<lambda>k. k < length xs) idx then Inr (map (\<lambda>k. xs ! k) idx)
      else Inl IndexError)"

fun col_mask :: "bool list \<Rightarrow> column \<Rightarrow> error + column" where
  "col_mask m (NumCol xs) = and_then (mask_index m xs) (\<lambda>ys. Inr (NumCol ys))"
| "col_mask m (SkyCol ps) = and_then (mask_index m ps) (\<lambda>qs. Inr (SkyCol qs))"

fun col_index :: "nat list \<Rightarrow> column \<Rightarrow> error + column" where
  "col_index idx (NumCol xs) = and_then (take_index idx xs) (\<lambda>ys. Inr (NumCol ys))"
| "col_index idx (SkyCol ps) = and_then (take_index idx ps) (\<lambda>qs. Inr (SkyCol qs))"

text \<open>\<^verbatim>\<open>t[mask]\<close> and \<^verbatim>\<open>t[idx]\<close> on a table: the same rows of every column.\<close>

fun table_mask :: "bool list \<Rightarrow> table \<Rightarrow> error + table" where
  "table_mask m [] = Inr []"
| "table_mask m ((name, c) # t) =
     and_then (col_mask m c)
       (\<lambda>c'. and_then (table_mask m t) (\<lambda>t'. Inr ((name, c') # t')))"

fun table_index :: "nat list \<Rightarrow> table \<Rightarrow> error + table" where
  "table_index idx [] = Inr []"
| "table_index idx ((name, c) # t) =
     and_then (col_index idx c)
       (\<lambda>c'. and_then (table_index idx t) (\<lambda>t'. Inr ((name, c') # t')))"

text \<open>
  \<^verbatim>\<open>t[name] = c\<close>: replaces the column of that name or appends a new one; the column
  must have as many rows as a table that already has columns.
\<close>

definition setitem :: "table \<Rightarrow> string \<Rightarrow> column \<Rightarrow> error + table" where
  "setitem t name c =
     (if t \<noteq> [] \<and> col_len c \<noteq> nrows t then Inl ValueError
      else Inr (AList.update name c t))"

text \<open>Elementwise \<^verbatim>\<open>a & b\<close> on two Boolean arrays; the operands are evaluated left to right.\<close>

definition mask_and :: "error + bool list \<Rightarrow> error + bool list \<Rightarrow> error + bool list" where
  "mask_and a b =
     and_then a (\<lambda>xs. and_then b (\<lambda>ys.
       if length xs \<noteq> length ys then Inl ValueError
       else Inr (map (\<lambda>(p, q). p \<and> q) (zip xs ys))))"

text \<open>Elementwise \<^verbatim>\<open>a > c\<close> and \<^verbatim>\<open>a < c\<close> of an array and a scalar.\<close>

definition gt :: "error + real list \<Rightarrow> real \<Rightarrow> error + bool list" where
  "gt a c = and_then a (\<lambda>xs. Inr (map (\<lambda>x. x > c) xs))"

definition lt :: "error + real list \<Rightarrow> real \<Rightarrow> error + bool list" where
  "lt a c = and_then a (\<lambda>xs. Inr (map (\<lambda>x. x < c) xs))"

text \<open>An elementwise binary operation on two arrays of numbers.\<close>

definition elementwise :: "(real \<Rightarrow> real \<Rightarrow> 'a) \<Rightarrow> real list \<Rightarrow> real list \<Rightarrow> error + 'a list" where
  "elementwise f xs ys =
     (if length xs \<noteq> length ys then Inl ValueError
      else Inr (map (\<lambda>(x, y). f x y) (zip xs ys)))"

text \<open>The rows of a table at the given positions, and the rows of one column.\<close>

fun pick :: "nat list \<Rightarrow> column \<Rightarrow> column" where
  "pick idx (NumCol xs) = NumCol (map (\<lambda>k. xs ! k) idx)"
| "pick idx (SkyCol ps) = SkyCol (map (\<lambda>k. ps ! k) idx)"

definition take_rows :: "nat list \<Rightarrow> table \<Rightarrow> table" where
  "take_rows idx t = map (\<lambda>(name, c). (name, pick idx c)) t"

subsection \<open>Sky coordinates\<close>

text \<open>
  The library constructor \<^verbatim>\<open>SkyCoord(ra, dec, unit='deg')\<close> on two arrays of degrees:
  a declination outside \<open>[-90, 90]\<close> is refused with \<^verbatim>\<open>ValueError\<close>, and a right
  ascension is stored reduced into \<open>[0, 360)\<close>, as \<^verbatim>\<open>a - 360 * floor(a / 360)\<close>.
\<close>

definition wrap_360 :: "real \<Rightarrow> real" where
  "wrap_360 a = a - 360 * of_int \<lfloor>a / 360\<rfloor>"

definition SkyCoord :: "real list \<Rightarrow> real list \<Rightarrow> error + sky list" where
  "SkyCoord ra dec =
     (if length ra \<noteq> length dec then Inl ValueError
      else if list_ex (\<lambda>d. d < - 90 \<or> 90 < d) dec then Inl ValueError
      else Inr (zip (map wrap_360 ra) dec))"

subsection \<open>Images\<close>

text \<open>
  An \<^verbatim>\<open>ImageModel\<close>: \<open>shape\<close> is (height, width), and \<open>wcs\<close> is the pixel-to-sky mapping
  \<^verbatim>\<open>meta.wcs\<close> assigned by the pipeline, an arbitrary function here.
\<close>

record image =
  shape :: "nat \<times> nat"
  wcs :: "real \<Rightarrow> real \<Rightarrow> sky"

subsection \<open>Cell 3.4: clean the catalogs\<close>

text \<open>
  \<^verbatim>\<open>mask_1 = ((r['x_fit'] > 0) & (r['x_fit'] < images_1[0].shape[1]) &
            (r['y_fit'] > 0) & (r['y_fit'] < images_1[0].shape[0]) & (r['flux_fit'] > 0))\<close>
  where \<open>shp\<close> is \<^verbatim>\<open>images_1[0].shape\<close>.
\<close>

definition mask_1 :: "nat \<times> nat \<Rightarrow> table \<Rightarrow> error + bool list" where
  "mask_1 shp r =
     mask_and (mask_and (mask_and (mask_and
       (gt (numeric r ''x_fit'') 0)
       (lt (numeric r ''x_fit'') (real (snd shp))))
       (gt (numeric r ''y_fit'') 0))
       (lt (numeric r ''y_fit'') (real (fst shp))))
       (gt (numeric r ''flux_fit'') 0)"

text \<open>
  The body of the loop:
  \<^verbatim>\<open>result_clean_1 = results_1[i][mask_1]
  result_clean_1[filt1+'_inst'] = -2.5 * np.log10(result_clean_1['flux_fit'])
  result_clean_1['e'+filt1+'_inst'] = 1.086 * (result_clean_1['flux_unc'] / result_clean_1['flux_fit'])\<close>
  split into the selection and the two assignments. The loop for the second filter is
  the same text with 2 for 1, so one definition serves both.
\<close>

definition select_mask_1 :: "nat \<times> nat \<Rightarrow> table \<Rightarrow> error + table" where
  "select_mask_1 shp r = and_then (mask_1 shp r) (\<lambda>m. table_mask m r)"

definition add_inst_1 :: "string \<Rightarrow> table \<Rightarrow> error + table" where
  "add_inst_1 filt rc =
     and_then (numeric rc ''flux_fit'') (\<lambda>flux.
     and_then (setitem rc (filt @ ''_inst'') (NumCol (map (\<lambda>f. - 2.5 * log 10 f) flux))) (\<lambda>rc1.
     and_then (numeric rc1 ''flux_unc'') (\<lambda>unc.
     and_then (numeric rc1 ''flux_fit'') (\<lambda>flux1.
     and_then (elementwise (\<lambda>u f. 1.086 * (u / f)) unc flux1) (\<lambda>err.
       setitem rc1 (''e'' @ filt @ ''_inst'') (NumCol err))))))"

definition result_clean_1 :: "string \<Rightarrow> nat \<times> nat \<Rightarrow> table \<Rightarrow> error + table" where
  "result_clean_1 filt shp r = and_then (select_mask_1 shp r) (add_inst_1 filt)"

text \<open>
  The loop \<^verbatim>\<open>for i in np.arange(0, len(images_1), 1)\<close>: catalog \<open>i\<close> is read from
  \<^verbatim>\<open>results_1[i]\<close>, the bounds from \<^verbatim>\<open>images_1[0].shape\<close>.
\<close>

definition results_clean_1 :: "string \<Rightarrow> image list \<Rightarrow> table list \<Rightarrow> error + table list" where
  "results_clean_1 filt images results =
     for_each (\<lambda>i.
       and_then (list_get results i) (\<lambda>r.
       and_then (list_get images 0) (\<lambda>im0.
         result_clean_1 filt (shape im0) r)))
     [0..<length images]"

subsection \<open>Cell 4: pixel to equatorial coordinates\<close>

text \<open>
  The body of the loop, for the cleaned catalog \<open>rc\<close> and its image \<open>im\<close>:
  \<^verbatim>\<open>ra_1, dec_1 = images_1[i].meta.wcs(result_final_1['x_fit'], result_final_1['y_fit'])
  radec_1 = SkyCoord(ra_1, dec_1, unit='deg')
  result_final_1['radec'] = radec_1\<close>
\<close>

definition result_final_1 :: "image \<Rightarrow> table \<Rightarrow> error + table" where
  "result_final_1 im rc =
     and_then (numeric rc ''x_fit'') (\<lambda>xs.
     and_then (numeric rc ''y_fit'') (\<lambda>ys.
     and_then (elementwise (wcs im) xs ys) (\<lambda>ra_dec_1.
     and_then (SkyCoord (map fst ra_dec_1) (map snd ra_dec_1)) (\<lambda>radec_1.
       setitem rc ''radec'' (SkyCol radec_1)))))"

text \<open>The loop: catalog \<open>i\<close> is \<^verbatim>\<open>results_clean_1[i]\<close>, its image \<^verbatim>\<open>images_1[i]\<close>.\<close>

definition results_final_1 :: "image list \<Rightarrow> table list \<Rightarrow> error + table list" where
  "results_final_1 images results_clean =
     for_each (\<lambda>i.
       and_then (list_get results_clean i) (\<lambda>rc.
       and_then (list_get images i) (\<lambda>im.
         result_final_1 im rc)))
     [0..<length images]"

subsection \<open>Cell 5: cross-match the catalogs\<close>

definition max_sep :: real where
  "max_sep = 0.5"

definition pixelscale :: real where
  "pixelscale = 0.031"

text \<open>\<^verbatim>\<open>d2d.arcsec\<close>: an angle in degrees read in arcseconds.\<close>

definition arcsec :: "real \<Rightarrow> real" where
  "arcsec d = d * 3600"

text \<open>The position of the first smallest element of a non-empty array.\<close>

fun nearest :: "real list \<Rightarrow> nat" where
  "nearest [] = 0"
| "nearest [d] = 0"
| "nearest (d # e # ds) =
     (let j = nearest (e # ds) in if d \<le> (e # ds) ! j then 0 else Suc j)"

text \<open>
  The library function \<^verbatim>\<open>match_coordinates_sky(matchcoord, catalogcoord)\<close>, as the
  nearest-neighbour oracle it is documented to be: for every coordinate to match, the
  index of the closest catalog coordinate and the on-sky separation to it; an empty
  catalog is refused. The separation of two sky coordinates, in degrees, is the
  parameter \<open>sep\<close>.
\<close>

definition match_coordinates_sky ::
  "(sky \<Rightarrow> sky \<Rightarrow> real) \<Rightarrow> sky list \<Rightarrow> sky list \<Rightarrow> error + (nat list \<times> real list)" where
  "match_coordinates_sky sep matchcoord catalogcoord =
     (if catalogcoord = [] then Inl ValueError
      else Inr (map (\<lambda>p. nearest (map (sep p) catalogcoord)) matchcoord,
                map (\<lambda>p. sep p (catalogcoord ! nearest (map (sep p) catalogcoord))) matchcoord))"

text \<open>
  The body of the two nested loops:
  \<^verbatim>\<open>idx, d2d, _ = match_coordinates_sky(res1['radec'], res2['radec'])
  sep_constraint = (d2d.arcsec / pixelscale) < max_sep
  match_phot_1 = res1[sep_constraint]
  match_phot_2 = res2[idx[sep_constraint]]\<close>
\<close>

definition match_phot ::
  "(sky \<Rightarrow> sky \<Rightarrow> real) \<Rightarrow> table \<Rightarrow> table \<Rightarrow> error + (table \<times> table)" where
  "match_phot sep res1 res2 =
     and_then (coords res1 ''radec'') (\<lambda>c1.
     and_then (coords res2 ''radec'') (\<lambda>c2.
     and_then (match_coordinates_sky sep c1 c2) (\<lambda>(idx, d2d).
       let sep_constraint = map (\<lambda>d. arcsec d / pixelscale < max_sep) d2d in
       and_then (table_mask sep_constraint res1) (\<lambda>match_phot_1.
       and_then (mask_index sep_constraint idx) (\<lambda>sel.
       and_then (table_index sel res2) (\<lambda>match_phot_2.
         Inr (match_phot_1, match_phot_2)))))))"

text \<open>
  \<^verbatim>\<open>for res1 in results_final_1: for res2 in results_final_2: ...\<close>, appending one pair
  per iteration: \<^verbatim>\<open>matches_phot_1\<close> is the list of the first components and
  \<^verbatim>\<open>matches_phot_2\<close> the list of the second ones; \<open>finals_1\<close> and \<open>finals_2\<close>
  stand for \<^verbatim>\<open>results_final_1\<close> and \<^verbatim>\<open>results_final_2\<close>.
\<close>

definition matches_phot ::
  "(sky \<Rightarrow> sky \<Rightarrow> real) \<Rightarrow> table list \<Rightarrow> table list \<Rightarrow> error + (table \<times> table) list" where
  "matches_phot sep finals_1 finals_2 =
     for_each (\<lambda>(res1, res2). match_phot sep res1 res2)
       (List.product finals_1 finals_2)"

subsection \<open>Cell 6.2: the sub-region of the input catalog in the field of view\<close>

text \<open>
  \<^verbatim>\<open>xlim0 = 0; ylim0 = 0; xlim1 = images_1[0].shape[1]; ylim1 = images_1[0].shape[0]
  ra_lim0, dec_lim0 = images_1[0].meta.wcs(xlim0, ylim0)
  ra_lim1, dec_lim1 = images_1[0].meta.wcs(xlim1 - 1, ylim1 - 1)
  ra_lim = sorted([ra_lim0, ra_lim1])
  dec_lim = [dec_lim0, dec_lim1]
  cat_sel = cat.loc[(cat['ra_in'] > ra_lim[0]) & (cat['ra_in'] < ra_lim[1]) &
                    (cat['dec_in'] > dec_lim[0]) & (cat['dec_in'] < dec_lim[1])]\<close>
\<close>

definition cat_sel :: "image list \<Rightarrow> table \<Rightarrow> error + table" where
  "cat_sel images cat =
     and_then (list_get images 0) (\<lambda>im0.
       let xlim0 = 0; ylim0 = 0;
           xlim1 = real (snd (shape im0)); ylim1 = real (fst (shape im0));
           (ra_lim0, dec_lim0) = wcs im0 xlim0 ylim0;
           (ra_lim1, dec_lim1) = wcs im0 (xlim1 - 1) (ylim1 - 1);
           ra_lim = sort [ra_lim0, ra_lim1];
           dec_lim = [dec_lim0, dec_lim1]
       in and_then
            (mask_and (mask_and (mask_and
              (gt (numeric cat ''ra_in'') (ra_lim ! 0))
              (lt (numeric cat ''ra_in'') (ra_lim ! 1)))
              (gt (numeric cat ''dec_in'') (dec_lim ! 0)))
              (lt (numeric cat ''dec_in'') (dec_lim ! 1)))
            (\<lambda>m. table_mask m cat))"

subsection \<open>Cell 6.3: cross-match with the input catalog\<close>

text \<open>
  \<^verbatim>\<open>radec_input = SkyCoord(cat_sel['ra_in'], cat_sel['dec_in'], unit='deg')
  catalog1 = matches_phot_1[0]
  catalog2 = matches_phot_2[0]
  idx_inp, d2d_inp, _ = match_coordinates_sky(radec_input, catalog1['radec'])
  sep_constraint_inp = (d2d_inp.arcsec / pixelscale) < max_sep
  match_phot_inp = Table()
  match_phot_inp['radec'] = radec_input[sep_constraint_inp]
  match_phot_inp[filt1] = cat_sel[filt1][sep_constraint_inp]
  match_phot_inp[filt2] = cat_sel[filt2][sep_constraint_inp]
  match_phot_out_1 = catalog1[idx_inp[sep_constraint_inp]]
  match_phot_out_2 = catalog2[idx_inp[sep_constraint_inp]]\<close>
  The result is the triple of \<^verbatim>\<open>match_phot_inp\<close>, \<^verbatim>\<open>match_phot_out_1\<close> and
  \<^verbatim>\<open>match_phot_out_2\<close>.
\<close>

definition match_phot_inp ::
  "(sky \<Rightarrow> sky \<Rightarrow> real) \<Rightarrow> string \<Rightarrow> string \<Rightarrow> table \<Rightarrow> table list \<Rightarrow> table list \<Rightarrow>
     error + (table \<times> table \<times> table)" where
  "match_phot_inp sep filt1 filt2 csel matches_phot_1 matches_phot_2 =
     and_then (numeric csel ''ra_in'') (\<lambda>ra.
     and_then (numeric csel ''dec_in'') (\<lambda>dec.
     and_then (SkyCoord ra dec) (\<lambda>radec_input.
     and_then (list_get matches_phot_1 0) (\<lambda>catalog1.
     and_then (list_get matches_phot_2 0) (\<lambda>catalog2.
     and_then (coords catalog1 ''radec'') (\<lambda>c1.
     and_then (match_coordinates_sky sep radec_input c1) (\<lambda>(idx_inp, d2d_inp).
       let sep_constraint_inp = map (\<lambda>d. arcsec d / pixelscale < max_sep) d2d_inp in
       and_then (mask_index sep_constraint_inp radec_input) (\<lambda>radec.
       and_then (setitem [] ''radec'' (SkyCol radec)) (\<lambda>t0.
       and_then (getitem csel filt1) (\<lambda>f1.
       and_then (col_mask sep_constraint_inp f1) (\<lambda>f1'.
       and_then (setitem t0 filt1 f1') (\<lambda>t1.
       and_then (getitem csel filt2) (\<lambda>f2.
       and_then (col_mask sep_constraint_inp f2) (\<lambda>f2'.
       and_then (setitem t1 filt2 f2') (\<lambda>t2.
       and_then (mask_index sep_constraint_inp idx_inp) (\<lambda>sel.
       and_then (table_index sel catalog1) (\<lambda>match_phot_out_1.
       and_then (table_index sel catalog2) (\<lambda>match_phot_out_2.
         Inr (t2, match_phot_out_1, match_phot_out_2)))))))))))))))))))"

subsection \<open>Cell 7: the colour-magnitude diagrams\<close>

text \<open>
  The figure is held in memory (\<^verbatim>\<open>plt.savefig\<close> is commented out): the three series
  of points drawn by \<^verbatim>\<open>ax1.scatter\<close> (twice) and \<^verbatim>\<open>ax2.scatter\<close>, each point a
  colour and a magnitude.
\<close>

record figure =
  lmc_input :: "(real \<times> real) list"
  lmc_matched :: "(real \<times> real) list"
  psf_phot :: "(real \<times> real) list"

text \<open>\<^verbatim>\<open>col = a[f1] - b[f2]; mag = a[f1]; scatter(col, mag)\<close>.\<close>

definition colour_magnitude ::
  "table \<Rightarrow> string \<Rightarrow> table \<Rightarrow> string \<Rightarrow> error + (real \<times> real) list" where
  "colour_magnitude a f1 b f2 =
     and_then (numeric a f1) (\<lambda>m1.
     and_then (numeric b f2) (\<lambda>m2.
     and_then (elementwise (\<lambda>x y. x - y) m1 m2) (\<lambda>col.
     and_then (numeric a f1) (\<lambda>mag.
       elementwise Pair col mag))))"

subsection \<open>The pure cells in sequence\<close>

text \<open>
  Cells 3.4, 4 and 5 on the images and catalogs of the two filters: the matched pairs
  (\<^verbatim>\<open>matches_phot_1\<close> and \<^verbatim>\<open>matches_phot_2\<close>, zipped).
\<close>

definition photometry ::
  "(sky \<Rightarrow> sky \<Rightarrow> real) \<Rightarrow> string \<Rightarrow> string \<Rightarrow> image list \<Rightarrow> image list \<Rightarrow>
     table list \<Rightarrow> table list \<Rightarrow> error + (table \<times> table) list" where
  "photometry sep filt1 filt2 images_1 images_2 results_1 results_2 =
     and_then (results_clean_1 filt1 images_1 results_1) (\<lambda>clean_1.
     and_then (results_clean_1 filt2 images_2 results_2) (\<lambda>clean_2.
     and_then (results_final_1 images_1 clean_1) (\<lambda>final_1.
     and_then (results_final_1 images_2 clean_2) (\<lambda>final_2.
       matches_phot sep final_1 final_2))))"

text \<open>Cells 6.2, 6.3 and 7 on the matched pairs and the input catalog: the figure.\<close>

definition comparison ::
  "(sky \<Rightarrow> sky \<Rightarrow> real) \<Rightarrow> string \<Rightarrow> string \<Rightarrow> image list \<Rightarrow> (table \<times> table) list \<Rightarrow>
     table \<Rightarrow> error + figure" where
  "comparison sep filt1 filt2 images_1 ms lmc =
     and_then (cat_sel images_1 lmc) (\<lambda>csel.
     and_then (match_phot_inp sep filt1 filt2 csel (map fst ms) (map snd ms))
       (\<lambda>(mpi, out_1, out_2).
     and_then (colour_magnitude csel filt1 csel filt2) (\<lambda>p1.
     and_then (colour_magnitude mpi filt1 mpi filt2) (\<lambda>p2.
     and_then (list_get (map fst ms) 0) (\<lambda>catalog1.
     and_then (list_get (map snd ms) 0) (\<lambda>catalog2.
     and_then (colour_magnitude catalog1 (filt1 @ ''_inst'') catalog2 (filt2 @ ''_inst''))
       (\<lambda>p3.
     and_then (colour_magnitude out_1 (filt1 @ ''_inst'') out_2 (filt2 @ ''_inst''))
       (\<lambda>col_out_match.
         Inr \<lparr>lmc_input = p1, lmc_matched = p2, psf_phot = p3\<rparr>))))))))"

subsection \<open>The file system and the library calls that reach it\<close>

text \<open>
  The file system: the set of directories, named without a trailing slash, and the
  regular files with their contents, by path.
\<close>

record filesystem =
  dirs :: "string set"
  files :: "(string \<times> string) list"

text \<open>
  A library call that reaches the file system takes it and returns its result, or the
  exception it raises, together with the file system it leaves: what a call did stays
  done when a later one raises.
\<close>

type_synonym 'a io = "filesystem \<Rightarrow> (error + 'a) \<times> filesystem"

definition io_bind :: "'a io \<Rightarrow> ('a \<Rightarrow> 'b io) \<Rightarrow> 'b io" where
  "io_bind m k fs =
     (case m fs of (Inl e, fs1) \<Rightarrow> (Inl e, fs1) | (Inr v, fs1) \<Rightarrow> k v fs1)"

text \<open>A computation that does not reach the file system.\<close>

definition io_pure :: "error + 'a \<Rightarrow> 'a io" where
  "io_pure r fs = (r, fs)"

text \<open>A loop that collects one result per iteration, and a loop that updates a state.\<close>

fun io_for_each :: "('a \<Rightarrow> 'b io) \<Rightarrow> 'a list \<Rightarrow> 'b list io" where
  "io_for_each f [] = io_pure (Inr [])"
| "io_for_each f (x # xs) =
     io_bind (f x) (\<lambda>y. io_bind (io_for_each f xs) (\<lambda>ys. io_pure (Inr (y # ys))))"

fun io_fold :: "('a \<Rightarrow> 's \<Rightarrow> 's io) \<Rightarrow> 'a list \<Rightarrow> 's \<Rightarrow> 's io" where
  "io_fold f [] st = io_pure (Inr st)"
| "io_fold f (x # xs) st = io_bind (f x st) (io_fold f xs)"

text \<open>A path without its trailing slashes.\<close>

definition strip_slash :: "string \<Rightarrow> string" where
  "strip_slash p = rev (dropWhile (\<lambda>c. c = CHR ''/'') (rev p))"

text \<open>
  \<^verbatim>\<open>os.path.exists(p)\<close>: a directory of that name, or, for a path written without a
  trailing slash, a regular file of that name.
\<close>

definition os_path_exists :: "string \<Rightarrow> bool io" where
  "os_path_exists p fs =
     (Inr (strip_slash p \<in> dirs fs \<or> (strip_slash p = p \<and> map_of (files fs) p \<noteq> None)), fs)"

text \<open>
  \<^verbatim>\<open>os.makedirs(p)\<close> for a path of one component, as the notebook's: the directory is
  created unless a directory or a regular file has the name, which raises
  \<^verbatim>\<open>FileExistsError\<close>.
\<close>

definition os_makedirs :: "string \<Rightarrow> unit io" where
  "os_makedirs p fs =
     (if strip_slash p \<in> dirs fs \<or> map_of (files fs) (strip_slash p) \<noteq> None
      then (Inl FileExistsError, fs)
      else (Inr (), fs\<lparr>dirs := insert (strip_slash p) (dirs fs)\<rparr>))"

text \<open>
  A file name against the pattern \<open>pre*suf\<close>: the star does not match a leading dot.
\<close>

definition fnmatch :: "string \<Rightarrow> string \<Rightarrow> string \<Rightarrow> bool" where
  "fnmatch pre suf name =
     (length pre + length suf \<le> length name \<and> take (length pre) name = pre \<and>
      drop (length name - length suf) name = suf \<and>
      (take 1 name \<noteq> ''.'' \<or> take 1 pre = ''.''))"

text \<open>
  \<^verbatim>\<open>glob.glob(os.path.join(dir, pre + '*' + suf))\<close>: the files of the directory whose
  names match, in the order the file system lists them.
\<close>

definition glob_glob :: "string \<Rightarrow> string \<Rightarrow> string \<Rightarrow> string list io" where
  "glob_glob dir pre suf fs =
     (Inr (remdups (filter
        (\<lambda>p. take (length dir + 1) p = dir @ ''/'' \<and>
             CHR ''/'' \<notin> set (drop (length dir + 1) p) \<and>
             fnmatch pre suf (drop (length dir + 1) p))
        (map fst (files fs)))), fs)"

text \<open>Opening a file for reading and reading it whole.\<close>

definition open_read :: "string \<Rightarrow> string io" where
  "open_read p fs =
     (case map_of (files fs) p of
        None \<Rightarrow> (Inl FileNotFoundError, fs)
      | Some c \<Rightarrow> (Inr c, fs))"

text \<open>
  What the libraries make of the contents of a file, and Python's \<^verbatim>\<open>float\<close> of a string:
  the three header keywords the notebook reads after \<^verbatim>\<open>fits.open\<close>, the
  \<^verbatim>\<open>ImageModel\<close>, the table of \<^verbatim>\<open>QTable.from_pandas(pd.read_pickle(...))\<close> and the table
  of \<^verbatim>\<open>pd.read_csv\<close>. They are parameters of the run.
\<close>

record header =
  FILTER :: string
  DETECTOR :: string
  PUPIL :: string

record formats =
  fits_header :: "string \<Rightarrow> error + header"
  image_model :: "string \<Rightarrow> error + image"
  from_pickle :: "string \<Rightarrow> error + table"
  from_csv :: "string \<Rightarrow> error + table"
  float_of :: "string \<Rightarrow> error + real"

definition fits_open :: "formats \<Rightarrow> string \<Rightarrow> header io" where
  "fits_open fm p = io_bind (open_read p) (\<lambda>c. io_pure (fits_header fm c))"

definition ImageModel :: "formats \<Rightarrow> string \<Rightarrow> image io" where
  "ImageModel fm p = io_bind (open_read p) (\<lambda>c. io_pure (image_model fm c))"

definition read_pickle :: "formats \<Rightarrow> string \<Rightarrow> table io" where
  "read_pickle fm p = io_bind (open_read p) (\<lambda>c. io_pure (from_pickle fm c))"

definition read_csv :: "formats \<Rightarrow> string \<Rightarrow> table io" where
  "read_csv fm p = io_bind (open_read p) (\<lambda>c. io_pure (from_csv fm c))"

subsection \<open>Cell 2.2: the figures directory\<close>

definition figures_dir :: string where
  "figures_dir = ''FIGURES/''"

text \<open>
  \<^verbatim>\<open>if not os.path.exists(figures_dir):
      os.makedirs(figures_dir)\<close>
\<close>

definition make_figures_dir :: "unit io" where
  "make_figures_dir =
     io_bind (os_path_exists figures_dir) (\<lambda>there.
       if \<not> there then os_makedirs figures_dir else io_pure (Inr ()))"

subsection \<open>Cell 3: the images by detector and filter\<close>

text \<open>
  The variables of the first loop. A dictionary is a list of keys and values in insertion
  order; the value of a filter is the list of its images, and the empty list stands for
  the empty dictionary \<^verbatim>\<open>{}\<close> that has no key \<^verbatim>\<open>'images'\<close> yet.
\<close>

record listing =
  dict_images :: "(string \<times> (string \<times> string list) list) list"
  dict_filter_short :: "(string \<times> string list) list"
  dict_filter_long :: "(string \<times> string list) list"
  ff_short :: "string list"
  det_short :: "string list"
  det_long :: "string list"
  ff_long :: "string list"

definition initial_listing :: listing where
  "initial_listing =
     \<lparr>dict_images =
        [(''NRCA1'', []), (''NRCA2'', []), (''NRCA3'', []), (''NRCA4'', []), (''NRCA5'', []),
         (''NRCB1'', []), (''NRCB2'', []), (''NRCB3'', []), (''NRCB4'', []), (''NRCB5'', [])],
      dict_filter_short = [], dict_filter_long = [],
      ff_short = [], det_short = [], det_long = [], ff_long = []\<rparr>"

definition images_dir :: string where
  "images_dir = ''../Simulation/Pipeline_Outputs/Level2_Outputs''"

text \<open>\<^verbatim>\<open>m.setdefault(k, v)\<close> and \<^verbatim>\<open>m[k]\<close> on a dictionary.\<close>

definition setdefault :: "(string \<times> 'v) list \<Rightarrow> string \<Rightarrow> 'v \<Rightarrow> (string \<times> 'v) list" where
  "setdefault m k v = (if map_of m k = None then m @ [(k, v)] else m)"

definition lookup :: "(string \<times> 'v) list \<Rightarrow> string \<Rightarrow> error + 'v" where
  "lookup m k = (case map_of m k of None \<Rightarrow> Inl KeyError | Some v \<Rightarrow> Inr v)"

text \<open>
  The detector and the filter of an image, as both loops compute them:
  \<^verbatim>\<open>if d == 'NRCBLONG': d = 'NRCB5' elif d == 'NRCALONG': d = 'NRCA5'\<close> and
  \<^verbatim>\<open>if p == 'CLEAR': f = f else: f = p\<close>.
\<close>

definition detector :: "header \<Rightarrow> string" where
  "detector h =
     (if DETECTOR h = ''NRCBLONG'' then ''NRCB5''
      else if DETECTOR h = ''NRCALONG'' then ''NRCA5''
      else DETECTOR h)"

definition filter_name :: "header \<Rightarrow> string" where
  "filter_name h = (if PUPIL h = ''CLEAR'' then FILTER h else PUPIL h)"

text \<open>
  The body of the first loop after the header is read: \<^verbatim>\<open>wv = float(f[1:3])\<close>, the four
  lists, and the dictionaries rebuilt from them.
\<close>

definition classify :: "formats \<Rightarrow> header \<Rightarrow> listing \<Rightarrow> error + listing" where
  "classify fm h st =
     (let d = detector h; f = filter_name h in
      and_then (float_of fm (take 2 (drop 1 f))) (\<lambda>wv.
        let st1 = (if wv > 24
                   then st\<lparr>ff_long := ff_long st @ [f], det_long := det_long st @ [d]\<rparr>
                   else st\<lparr>ff_short := ff_short st @ [f], det_short := det_short st @ [d]\<rparr>);
            detlist_short = sort (remdups (det_short st1));
            detlist_long = sort (remdups (det_long st1));
            dfs = fold (\<lambda>x m. setdefault m x []) (ff_short st1) (dict_filter_short st1);
            dfl = fold (\<lambda>x m. setdefault m x []) (ff_long st1) (dict_filter_long st1);
            di1 = fold (\<lambda>d_s m. AList.update d_s dfs m) detlist_short (dict_images st1);
            di2 = fold (\<lambda>d_l m. AList.update d_l dfl m) detlist_long di1
        in Inr (st1\<lparr>dict_filter_short := dfs, dict_filter_long := dfl, dict_images := di2\<rparr>)))"

text \<open>
  The body of the second loop after the header is read, \<open>path\<close> being the loop
  variable \<^verbatim>\<open>image\<close>:
  \<^verbatim>\<open>if len(dict_images[d][f]) == 0: dict_images[d][f] = {'images': [image]}
  else: dict_images[d][f]['images'].append(image)\<close>
\<close>

definition add_image ::
  "string \<Rightarrow> header \<Rightarrow> (string \<times> (string \<times> string list) list) list \<Rightarrow>
     error + (string \<times> (string \<times> string list) list) list" where
  "add_image path h di =
     (let d = detector h; f = filter_name h in
      and_then (lookup di d) (\<lambda>by_filter.
      and_then (lookup by_filter f) (\<lambda>ims.
        Inr (AList.update d (AList.update f (ims @ [path]) by_filter) di))))"

text \<open>\<^verbatim>\<open>dict_images[det][filt]['images']\<close>.\<close>

definition images_of ::
  "(string \<times> (string \<times> string list) list) list \<Rightarrow> string \<Rightarrow> string \<Rightarrow> error + string list" where
  "images_of di det filt =
     and_then (lookup di det) (\<lambda>by_filter.
     and_then (lookup by_filter filt) (\<lambda>ims.
       if ims = [] then Inl KeyError else Inr ims))"

subsection \<open>Cell 3.3: the photometry catalogs\<close>

definition cat_dir :: string where
  "cat_dir = ''PSF_PHOT_OUTPUT/numPSFs16_Th10_fitshape11x11''"

text \<open>\<^verbatim>\<open>str.lower\<close> on the letters A to Z.\<close>

definition lower :: "string \<Rightarrow> string" where
  "lower s =
     map (\<lambda>c. case map_of (zip ''ABCDEFGHIJKLMNOPQRSTUVWXYZ'' ''abcdefghijklmnopqrstuvwxyz'') c of
                None \<Rightarrow> c | Some l \<Rightarrow> l) s"

subsection \<open>Cell 6.1: the input catalog\<close>

definition input_cat :: string where
  "input_cat = ''../Simulation/lmc_pointsources.cat''"

subsection \<open>The cells that read\<close>

text \<open>
  Cell 3, both loops over \<^verbatim>\<open>sorted(glob.glob(os.path.join(images_dir, "*cal.fits")))\<close>,
  each opening every image: the dictionary \<^verbatim>\<open>dict_images\<close>.
\<close>

definition cell_3 :: "formats \<Rightarrow> (string \<times> (string \<times> string list) list) list io" where
  "cell_3 fm =
     io_bind (glob_glob images_dir [] ''cal.fits'') (\<lambda>found.
     io_bind (io_fold (\<lambda>path st. io_bind (fits_open fm path) (\<lambda>h. io_pure (classify fm h st)))
                (sort found) initial_listing) (\<lambda>st.
       io_fold (\<lambda>path di. io_bind (fits_open fm path) (\<lambda>h. io_pure (add_image path h di)))
         (sort found) (dict_images st)))"

text \<open>Cell 3.2: the data models of the images of the two filters.\<close>

definition cell_3_2 ::
  "formats \<Rightarrow> (string \<times> (string \<times> string list) list) list \<Rightarrow> string \<Rightarrow> string \<Rightarrow> string \<Rightarrow>
     (image list \<times> image list) io" where
  "cell_3_2 fm di det filt1 filt2 =
     io_bind (io_pure (images_of di det filt1)) (\<lambda>paths_1.
     io_bind (io_for_each (ImageModel fm) paths_1) (\<lambda>images_1.
     io_bind (io_pure (images_of di det filt2)) (\<lambda>paths_2.
     io_bind (io_for_each (ImageModel fm) paths_2) (\<lambda>images_2.
       io_pure (Inr (images_1, images_2))))))"

text \<open>
  Cell 3.3: the catalogs of
  \<^verbatim>\<open>sorted(glob.glob(os.path.join(cat_dir, 'phot_'+str.lower(det)+'_'+filt1+'*.pkl')))\<close>
  and of the same for the second filter.
\<close>

definition cell_3_3 ::
  "formats \<Rightarrow> string \<Rightarrow> string \<Rightarrow> string \<Rightarrow> (table list \<times> table list) io" where
  "cell_3_3 fm det filt1 filt2 =
     io_bind (glob_glob cat_dir (''phot_'' @ lower det @ ''_'' @ filt1) ''.pkl'') (\<lambda>found_1.
     io_bind (glob_glob cat_dir (''phot_'' @ lower det @ ''_'' @ filt2) ''.pkl'') (\<lambda>found_2.
     io_bind (io_for_each (read_pickle fm) (sort found_1)) (\<lambda>results_1.
     io_bind (io_for_each (read_pickle fm) (sort found_2)) (\<lambda>results_2.
       io_pure (Inr (results_1, results_2))))))"

subsection \<open>The notebook, run from top to bottom\<close>

text \<open>
  The cells in their order, for the detector and the two filters of cell 3.1. The
  result is the figure or the exception that ended the run, and the file system the
  run leaves. (\<^verbatim>\<open>plt.savefig\<close> at the end of cell 7 is commented out.)
\<close>

definition notebook ::
  "formats \<Rightarrow> (sky \<Rightarrow> sky \<Rightarrow> real) \<Rightarrow> string \<Rightarrow> string \<Rightarrow> string \<Rightarrow> figure io" where
  "notebook fm sep det filt1 filt2 =
     io_bind make_figures_dir (\<lambda>_.
     io_bind (cell_3 fm) (\<lambda>di.
     io_bind (cell_3_2 fm di det filt1 filt2) (\<lambda>(images_1, images_2).
     io_bind (cell_3_3 fm det filt1 filt2) (\<lambda>(results_1, results_2).
     io_bind (io_pure (photometry sep filt1 filt2 images_1 images_2 results_1 results_2))
       (\<lambda>ms.
     io_bind (read_csv fm input_cat) (\<lambda>lmc.
       io_pure (comparison sep filt1 filt2 images_1 ms lmc)))))))"

subsection \<open>The threshold selection, as specified\<close>

text \<open>
  In the words of the specification: the positions of the coordinates \<open>c1\<close> whose nearest
  neighbour among \<open>c2\<close> is at a separation that, in arcseconds and divided by the pixel
  scale 0.031, is strictly less than 0.5.
\<close>

definition matched :: "(sky \<Rightarrow> sky \<Rightarrow> real) \<Rightarrow> sky list \<Rightarrow> sky list \<Rightarrow> nat list" where
  "matched sep c1 c2 =
     filter (\<lambda>k. arcsec (Min (sep (c1 ! k) ` set c2)) / 0.031 < 0.5) [0..<length c1]"

subsection \<open>Example inputs\<close>

text \<open>
  A catalog of three detections: the first is valid in a 4 by 4 image, the second lies
  right of such an image, the third left of any image.
\<close>

definition example_catalog :: table where
  "example_catalog =
     [(''x_fit'', NumCol [1, 5, - 1]), (''y_fit'', NumCol [2, 2, 2]),
      (''flux_fit'', NumCol [10, 1, 10]), (''flux_unc'', NumCol [1, 1, 1])]"

text \<open>Two images of different shapes, each with a mapping to the sky of its own.\<close>

definition example_images :: "image list" where
  "example_images =
     [\<lparr>shape = (10, 10), wcs = (\<lambda>x y. (x, y))\<rparr>,
      \<lparr>shape = (4, 4), wcs = (\<lambda>x y. (x + 100, y + 10))\<rparr>]"


text \<open>
  An input catalog of three stars, two of them inside the first example image; and an
  image whose declination decreases from pixel (0, 0) to the opposite corner, with a
  catalog of two stars that both lie inside it.
\<close>

definition example_lmc :: table where
  "example_lmc =
     [(''index'', NumCol [0, 1, 2]), (''ra_in'', NumCol [1, 5, 20]),
      (''dec_in'', NumCol [2, 2, 2]), (''F115W'', NumCol [18, 19, 20]),
      (''F200W'', NumCol [17.5, 19, 19])]"

definition example_descending :: "image list" where
  "example_descending = [\<lparr>shape = (10, 10), wcs = (\<lambda>x y. (x, - y))\<rparr>]"

definition example_lmc_south :: table where
  "example_lmc_south =
     [(''index'', NumCol [0, 1]), (''ra_in'', NumCol [1, 5]),
      (''dec_in'', NumCol [- 2, - 3]), (''F115W'', NumCol [18, 19]),
      (''F200W'', NumCol [17.5, 19])]"

text \<open>A separation for the examples: the sum of the coordinate differences, in degrees.\<close>

definition sep_flat :: "sky \<Rightarrow> sky \<Rightarrow> real" where
  "sep_flat a b = \<bar>fst a - fst b\<bar> + \<bar>snd a - snd b\<bar>"

text \<open>
  Two final catalogs, what their cross-match selects, a selected input catalog and what
  its cross-match with the first matched catalog selects.
\<close>

definition example_final_1 :: table where
  "example_final_1 = [(''id'', NumCol [1, 2, 3]), (''radec'', SkyCol [(1, 2), (5, 2), (7, 7)])]"

definition example_final_2 :: table where
  "example_final_2 =
     [(''id'', NumCol [10, 20]), (''radec'', SkyCol [(5.00001, 2), (1.000001, 2)])]"

definition example_match_1 :: table where
  "example_match_1 = [(''id'', NumCol [1]), (''radec'', SkyCol [(1, 2)])]"

definition example_match_2 :: table where
  "example_match_2 = [(''id'', NumCol [20]), (''radec'', SkyCol [(1.000001, 2)])]"

definition example_cat_sel :: table where
  "example_cat_sel =
     [(''index'', NumCol [0, 1]), (''ra_in'', NumCol [1, 5]), (''dec_in'', NumCol [2, 2]),
      (''F115W'', NumCol [18, 19]), (''F200W'', NumCol [17.5, 19])]"

definition example_match_inp :: table where
  "example_match_inp =
     [(''radec'', SkyCol [(1, 2)]), (''F115W'', NumCol [18]), (''F200W'', NumCol [17.5])]"

text \<open>A catalog of the second filter: two detections, both valid.\<close>

definition example_catalog_2 :: table where
  "example_catalog_2 =
     [(''x_fit'', NumCol [5, 1]), (''y_fit'', NumCol [2, 2.00001]),
      (''flux_fit'', NumCol [10, 10]), (''flux_unc'', NumCol [1, 1])]"

text \<open>
  A complete run: what the libraries make of five file contents, file systems that hold
  the five files (without a figures directory, with one, and with a regular file in its
  place), and what the run computes on them.
\<close>

definition example_image_1 :: image where
  "example_image_1 = \<lparr>shape = (10, 10), wcs = (\<lambda>x y. (x, y))\<rparr>"

definition example_image_2 :: image where
  "example_image_2 = \<lparr>shape = (10, 10), wcs = (\<lambda>x y. (x + 0.000001, y))\<rparr>"

definition example_formats :: formats where
  "example_formats =
     \<lparr>fits_header = (\<lambda>c.
        if c = ''image 1'' then Inr \<lparr>FILTER = ''F115W'', DETECTOR = ''NRCB1'', PUPIL = ''CLEAR''\<rparr>
        else if c = ''image 2'' then Inr \<lparr>FILTER = ''F200W'', DETECTOR = ''NRCB1'', PUPIL = ''CLEAR''\<rparr>
        else Inl KeyError),
      image_model = (\<lambda>c.
        if c = ''image 1'' then Inr example_image_1
        else if c = ''image 2'' then Inr example_image_2
        else Inl ValueError),
      from_pickle = (\<lambda>c.
        if c = ''catalog 1'' then Inr example_catalog
        else if c = ''catalog 2'' then Inr example_catalog_2
        else Inl ValueError),
      from_csv = (\<lambda>c. if c = ''lmc'' then Inr example_lmc else Inl ValueError),
      float_of = (\<lambda>s.
        if s = ''11'' then Inr 11 else if s = ''20'' then Inr 20 else Inl ValueError)\<rparr>"

definition example_files :: "(string \<times> string) list" where
  "example_files =
     [(''../Simulation/Pipeline_Outputs/Level2_Outputs/a_cal.fits'', ''image 1''),
      (''../Simulation/Pipeline_Outputs/Level2_Outputs/b_cal.fits'', ''image 2''),
      (''PSF_PHOT_OUTPUT/numPSFs16_Th10_fitshape11x11/phot_nrcb1_F115W_a.pkl'', ''catalog 1''),
      (''PSF_PHOT_OUTPUT/numPSFs16_Th10_fitshape11x11/phot_nrcb1_F200W_b.pkl'', ''catalog 2''),
      (''../Simulation/lmc_pointsources.cat'', ''lmc'')]"

definition example_fs :: filesystem where
  "example_fs = \<lparr>dirs = {''../Simulation'', ''PSF_PHOT_OUTPUT''}, files = example_files\<rparr>"

definition example_fs_figures :: filesystem where
  "example_fs_figures =
     \<lparr>dirs = {''FIGURES'', ''../Simulation'', ''PSF_PHOT_OUTPUT''}, files = example_files\<rparr>"

definition example_fs_blocked :: filesystem where
  "example_fs_blocked =
     \<lparr>dirs = {''../Simulation'', ''PSF_PHOT_OUTPUT''},
      files = (''FIGURES'', ''not a directory'') # example_files\<rparr>"

definition example_dict_images :: "(string \<times> (string \<times> string list) list) list" where
  "example_dict_images =
     [(''NRCA1'', []), (''NRCA2'', []), (''NRCA3'', []), (''NRCA4'', []), (''NRCA5'', []),
      (''NRCB1'',
         [(''F115W'', [''../Simulation/Pipeline_Outputs/Level2_Outputs/a_cal.fits'']),
          (''F200W'', [''../Simulation/Pipeline_Outputs/Level2_Outputs/b_cal.fits''])]),
      (''NRCB2'', []), (''NRCB3'', []), (''NRCB4'', []), (''NRCB5'', [])]"

definition example_pairs :: "(table \<times> table) list" where
  "example_pairs =
     [([(''x_fit'', NumCol [5]), (''y_fit'', NumCol [2]),
        (''flux_fit'', NumCol [1]), (''flux_unc'', NumCol [1]),
        (''F115W_inst'', NumCol [0]), (''eF115W_inst'', NumCol [1.086]),
        (''radec'', SkyCol [(5, 2)])],
       [(''x_fit'', NumCol [5]), (''y_fit'', NumCol [2]),
        (''flux_fit'', NumCol [10]), (''flux_unc'', NumCol [1]),
        (''F200W_inst'', NumCol [- 2.5]), (''eF200W_inst'', NumCol [0.1086]),
        (''radec'', SkyCol [(5.000001, 2)])])]"

definition example_figure :: figure where
  "example_figure =
     \<lparr>lmc_input = [(0.5, 18), (0, 19)], lmc_matched = [(0, 19)], psf_phot = [(2.5, 0)]\<rparr>"

section \<open>Basic facts\<close>

lemma and_then_Inr: "and_then r k = Inr y \<longleftrightarrow> (\<exists>v. r = Inr v \<and> k v = Inr y)"
  by (cases r) (simp_all add: and_then_def)

lemma and_then_simps [simp]:
  "and_then (Inl e) k = Inl e"
  "and_then (Inr v) k = k v"
  by (simp_all add: and_then_def)

lemmas table_defs = and_then_def list_get_def getitem_def numeric_def coords_def nonzero_def
  mask_index_def take_index_def setitem_def mask_and_def gt_def lt_def elementwise_def
  take_rows_def SkyCoord_def wrap_360_def

lemma gt_Inr: "gt a c = Inr m \<longleftrightarrow> (\<exists>xs. a = Inr xs \<and> m = map (\<lambda>x. c < x) xs)"
  by (auto simp: gt_def and_then_Inr)

lemma lt_Inr: "lt a c = Inr m \<longleftrightarrow> (\<exists>xs. a = Inr xs \<and> m = map (\<lambda>x. x < c) xs)"
  by (auto simp: lt_def and_then_Inr)

lemma mask_and_Inr:
  "mask_and a b = Inr m \<longleftrightarrow>
     (\<exists>xs ys. a = Inr xs \<and> b = Inr ys \<and> length xs = length ys \<and>
        m = map (\<lambda>(p, q). p \<and> q) (zip xs ys))"
  by (auto simp: mask_and_def and_then_Inr)

lemma mask_1_Inr:
  assumes "mask_1 shp r = Inr m"
  shows "\<exists>xs ys fs. numeric r ''x_fit'' = Inr xs \<and> numeric r ''y_fit'' = Inr ys \<and>
           numeric r ''flux_fit'' = Inr fs \<and> length ys = length xs \<and> length fs = length xs \<and>
           m = map (\<lambda>k. 0 < xs ! k \<and> xs ! k < real (snd shp) \<and> 0 < ys ! k \<and>
                         ys ! k < real (fst shp) \<and> 0 < fs ! k) [0..<length xs]"
proof -
  from assms obtain xs ys fs where
    x: "numeric r ''x_fit'' = Inr xs" and y: "numeric r ''y_fit'' = Inr ys" and
    f: "numeric r ''flux_fit'' = Inr fs" and ly: "length ys = length xs" and
    lf: "length fs = length xs"
    by (auto simp: mask_1_def mask_and_Inr gt_Inr lt_Inr)
  with assms have "m = map (\<lambda>k. 0 < xs ! k \<and> xs ! k < real (snd shp) \<and> 0 < ys ! k \<and>
                         ys ! k < real (fst shp) \<and> 0 < fs ! k) [0..<length xs]"
    by (auto simp: mask_1_def mask_and_Inr gt_Inr lt_Inr intro!: nth_equalityI)
  with x y f ly lf show ?thesis by blast
qed

lemma nonzero_map_upt: "nonzero (map P [0..<n]) = filter P [0..<n]"
  by (auto simp: nonzero_def intro: filter_cong)

lemma col_mask_Inr: "col_mask m c = Inr c' \<longleftrightarrow> col_len c = length m \<and> c' = pick (nonzero m) c"
  by (cases c) (auto simp: and_then_Inr mask_index_def)

lemma table_mask_Inr:
  "table_mask m t = Inr t' \<longleftrightarrow>
     list_all (\<lambda>p. col_len (snd p) = length m) t \<and> t' = take_rows (nonzero m) t"
  by (induction t arbitrary: t') (auto simp: and_then_Inr col_mask_Inr take_rows_def)

lemma col_index_Inr:
  "col_index idx c = Inr c' \<longleftrightarrow> list_all (\<lambda>k. k < col_len c) idx \<and> c' = pick idx c"
  by (cases c) (auto simp: and_then_Inr take_index_def)

lemma table_index_Inr:
  "table_index idx t = Inr t' \<longleftrightarrow>
     list_all (\<lambda>p. list_all (\<lambda>k. k < col_len (snd p)) idx) t \<and> t' = take_rows idx t"
  by (induction t arbitrary: t') (auto simp: and_then_Inr col_index_Inr take_rows_def)

lemma getitem_Inr: "getitem t name = Inr c \<longleftrightarrow> map_of t name = Some c"
  by (auto simp: getitem_def split: option.splits)

lemma numeric_Inr: "numeric t name = Inr xs \<longleftrightarrow> map_of t name = Some (NumCol xs)"
  by (cases "map_of t name") (auto simp: numeric_def getitem_def split: column.splits)

lemma coords_Inr: "coords t name = Inr ps \<longleftrightarrow> map_of t name = Some (SkyCol ps)"
  by (cases "map_of t name") (auto simp: coords_def getitem_def split: column.splits)

lemma nrows_uniform:
  assumes "list_all (\<lambda>p. col_len (snd p) = n) t" "map_of t name = Some c"
  shows "nrows t = n" and "col_len c = n"
proof -
  from assms(2) have "(name, c) \<in> set t" by (rule map_of_SomeD)
  with assms(1) show "col_len c = n" by (force simp: list_all_iff)
  from assms show "nrows t = n" by (cases t) auto
qed

lemma map_of_take_rows: "map_of (take_rows idx t) name = map_option (pick idx) (map_of t name)"
  by (induction t) (auto simp: take_rows_def)

lemma nrows_take_rows: "t \<noteq> [] \<Longrightarrow> nrows (take_rows idx t) = length idx"
  by (cases t; cases "snd (hd t)") (auto simp: take_rows_def)


lemma setitem_Inr:
  "setitem t name c = Inr t' \<longleftrightarrow> (t = [] \<or> col_len c = nrows t) \<and> t' = AList.update name c t"
  by (auto simp: setitem_def)

lemma elementwise_Inr:
  "elementwise f xs ys = Inr zs \<longleftrightarrow>
     length xs = length ys \<and> zs = map (\<lambda>(x, y). f x y) (zip xs ys)"
  by (auto simp: elementwise_def)

lemma for_each_Inr:
  "for_each f xs = Inr ys \<longleftrightarrow>
     length ys = length xs \<and> (\<forall>k<length xs. f (xs ! k) = Inr (ys ! k))"
proof (induction xs arbitrary: ys)
  case Nil
  show ?case by auto
next
  case (Cons x xs)
  show ?case
  proof (cases ys)
    case Nil
    then show ?thesis by (auto simp: and_then_Inr)
  next
    case (Cons y ys')
    then show ?thesis
      by (auto simp: and_then_Inr Cons.IH nth_Cons split: nat.splits)
  qed
qed

lemma list_get_Inr: "list_get xs i = Inr x \<longleftrightarrow> i < length xs \<and> x = xs ! i"
  by (auto simp: list_get_def)

lemma suffix_of_append: "xs @ ys = zs \<Longrightarrow> drop (length zs - length ys) zs = ys"
  by auto

lemma inst_names:
  "filt @ ''_inst'' \<noteq> ''flux_fit''" "filt @ ''_inst'' \<noteq> ''flux_unc''"
  "filt @ ''_inst'' \<noteq> ''x_fit''" "filt @ ''_inst'' \<noteq> ''y_fit''"
  "filt @ ''_inst'' \<noteq> ''radec''"
  "''e'' @ filt @ ''_inst'' \<noteq> ''flux_fit''" "''e'' @ filt @ ''_inst'' \<noteq> ''flux_unc''"
  "''e'' @ filt @ ''_inst'' \<noteq> ''x_fit''" "''e'' @ filt @ ''_inst'' \<noteq> ''y_fit''"
  "''e'' @ filt @ ''_inst'' \<noteq> ''radec''"
  "''e'' @ filt @ ''_inst'' \<noteq> filt @ ''_inst''"
  using suffix_of_append [of filt "''_inst''" "''flux_fit''"]
    suffix_of_append [of filt "''_inst''" "''flux_unc''"]
    suffix_of_append [of filt "''_inst''" "''x_fit''"]
    suffix_of_append [of filt "''_inst''" "''y_fit''"]
    suffix_of_append [of filt "''_inst''" "''radec''"]
    suffix_of_append [of "CHR ''e'' # filt" "''_inst''" "''flux_fit''"]
    suffix_of_append [of "CHR ''e'' # filt" "''_inst''" "''flux_unc''"]
    suffix_of_append [of "CHR ''e'' # filt" "''_inst''" "''x_fit''"]
    suffix_of_append [of "CHR ''e'' # filt" "''_inst''" "''y_fit''"]
    suffix_of_append [of "CHR ''e'' # filt" "''_inst''" "''radec''"]
  by auto

lemma select_mask_1_Inr:
  assumes "select_mask_1 shp r = Inr sel"
  shows "\<exists>xs ys fs. numeric r ''x_fit'' = Inr xs \<and> numeric r ''y_fit'' = Inr ys \<and>
           numeric r ''flux_fit'' = Inr fs \<and> nrows r = length xs \<and>
           list_all (\<lambda>p. col_len (snd p) = length xs) r \<and>
           sel = take_rows (filter (\<lambda>k. 0 < xs ! k \<and> xs ! k < real (snd shp) \<and> 0 < ys ! k \<and>
                         ys ! k < real (fst shp) \<and> 0 < fs ! k) [0..<nrows r]) r"
proof -
  from assms obtain m where m: "mask_1 shp r = Inr m" and t: "table_mask m r = Inr sel"
    by (auto simp: select_mask_1_def and_then_Inr)
  from mask_1_Inr [OF m] obtain xs ys fs where
    x: "numeric r ''x_fit'' = Inr xs" and y: "numeric r ''y_fit'' = Inr ys" and
    f: "numeric r ''flux_fit'' = Inr fs" and
    meq: "m = map (\<lambda>k. 0 < xs ! k \<and> xs ! k < real (snd shp) \<and> 0 < ys ! k \<and>
                         ys ! k < real (fst shp) \<and> 0 < fs ! k) [0..<length xs]"
    by blast
  have lm: "length m = length xs" by (simp add: meq)
  from t have all: "list_all (\<lambda>p. col_len (snd p) = length xs) r"
    and sel: "sel = take_rows (nonzero m) r"
    by (simp_all add: table_mask_Inr lm)
  from x have "map_of r ''x_fit'' = Some (NumCol xs)" by (simp add: numeric_Inr)
  with all have n: "nrows r = length xs" by (rule nrows_uniform)
  have "nonzero m = filter (\<lambda>k. 0 < xs ! k \<and> xs ! k < real (snd shp) \<and> 0 < ys ! k \<and>
                         ys ! k < real (fst shp) \<and> 0 < fs ! k) [0..<nrows r]"
    unfolding meq n by (rule nonzero_map_upt)
  with sel x y f n all show ?thesis by auto
qed

lemma add_inst_1_Inr:
  assumes "add_inst_1 filt sel = Inr rc"
  shows "\<exists>flux unc. numeric sel ''flux_fit'' = Inr flux \<and> numeric sel ''flux_unc'' = Inr unc \<and>
           length unc = length flux \<and>
           rc = AList.update (''e'' @ filt @ ''_inst'')
                  (NumCol (map (\<lambda>(u, f). 1.086 * (u / f)) (zip unc flux)))
                  (AList.update (filt @ ''_inst'') (NumCol (map (\<lambda>f. - 2.5 * log 10 f) flux)) sel)"
  using assms inst_names [of filt]
  by (auto simp: add_inst_1_def and_then_Inr setitem_Inr elementwise_Inr numeric_Inr update_conv')

section \<open>The cleaning step\<close>

lemma example_result_clean:
  "result_clean_1 ''F115W'' (4, 4) example_catalog =
     Inr [(''x_fit'', NumCol [1]), (''y_fit'', NumCol [2]),
          (''flux_fit'', NumCol [10]), (''flux_unc'', NumCol [1]),
          (''F115W_inst'', NumCol [- 2.5 * log 10 10]),
          (''eF115W_inst'', NumCol [1.086 * (1 / 10)])]"
  by (simp add: result_clean_1_def select_mask_1_def mask_1_def add_inst_1_def table_defs
      example_catalog_def upt_rec)



text \<open>
  C4. On a catalog that the cleaning step returns, the column \<open>filt_inst\<close> is
  \<open>- 2.5 * log10 flux_fit\<close> and the column \<open>efilt_inst\<close> is \<open>1.086 * (flux_unc / flux_fit)\<close>,
  row by row over the selected rows, every \<open>flux_fit\<close> there is positive, and every column
  of another name is the column of the selected rows.
\<close>

theorem inst_columns_formula:
  assumes "result_clean_1 filt shp r = Inr rc"
  shows "\<exists>sel flux unc.
     select_mask_1 shp r = Inr sel \<and>
     numeric sel ''flux_fit'' = Inr flux \<and> numeric sel ''flux_unc'' = Inr unc \<and>
     length unc = length flux \<and> list_all (\<lambda>f. 0 < f) flux \<and>
     numeric rc (filt @ ''_inst'') = Inr (map (\<lambda>f. - 2.5 * log 10 f) flux) \<and>
     numeric rc (''e'' @ filt @ ''_inst'') =
       Inr (map (\<lambda>(u, f). 1.086 * (u / f)) (zip unc flux)) \<and>
     (\<forall>name. name \<noteq> filt @ ''_inst'' \<longrightarrow> name \<noteq> ''e'' @ filt @ ''_inst'' \<longrightarrow>
        map_of rc name = map_of sel name)"
proof -
  from assms obtain sel
    where s: "select_mask_1 shp r = Inr sel" and a: "add_inst_1 filt sel = Inr rc"
    by (auto simp: result_clean_1_def and_then_Inr)
  from select_mask_1_Inr [OF s] obtain xs ys fs where
    f: "numeric r ''flux_fit'' = Inr fs" and
    sel: "sel = take_rows (filter (\<lambda>k. 0 < xs ! k \<and> xs ! k < real (snd shp) \<and> 0 < ys ! k \<and>
                         ys ! k < real (fst shp) \<and> 0 < fs ! k) [0..<nrows r]) r"
    by blast
  from add_inst_1_Inr [OF a] obtain flux unc where
    fl: "numeric sel ''flux_fit'' = Inr flux" and un: "numeric sel ''flux_unc'' = Inr unc" and
    len: "length unc = length flux" and
    rc: "rc = AList.update (''e'' @ filt @ ''_inst'')
                  (NumCol (map (\<lambda>(u, f). 1.086 * (u / f)) (zip unc flux)))
                  (AList.update (filt @ ''_inst'') (NumCol (map (\<lambda>f. - 2.5 * log 10 f) flux)) sel)"
    by blast
  from f fl have "list_all (\<lambda>f. 0 < f) flux"
    by (auto simp: numeric_Inr sel map_of_take_rows list_all_iff)
  moreover have "numeric rc (filt @ ''_inst'') = Inr (map (\<lambda>f. - 2.5 * log 10 f) flux)"
    using inst_names [of filt] by (simp add: rc numeric_Inr update_conv')
  moreover have "numeric rc (''e'' @ filt @ ''_inst'') =
       Inr (map (\<lambda>(u, f). 1.086 * (u / f)) (zip unc flux))"
    by (simp add: rc numeric_Inr update_conv')
  moreover have "\<forall>name. name \<noteq> filt @ ''_inst'' \<longrightarrow> name \<noteq> ''e'' @ filt @ ''_inst'' \<longrightarrow>
        map_of rc name = map_of sel name"
    by (simp add: rc update_conv')
  ultimately show ?thesis using s fl un len by blast
qed

theorem inst_columns_formula_witness:
  "\<exists>rc. result_clean_1 ''F115W'' (4, 4) example_catalog = Inr rc \<and>
     numeric rc ''flux_fit'' = Inr [10] \<and>
     numeric rc ''F115W_inst'' = Inr [- 2.5 * log 10 10] \<and>
     numeric rc ''eF115W_inst'' = Inr [1.086 * (1 / 10)]"
proof -
  let ?sel = "[(''x_fit'', NumCol [1]), (''y_fit'', NumCol [2]),
               (''flux_fit'', NumCol [10]), (''flux_unc'', NumCol [1])]"
  have s: "select_mask_1 (4, 4) example_catalog = Inr ?sel"
    by (simp add: select_mask_1_def mask_1_def table_defs example_catalog_def upt_rec)
  from inst_columns_formula [OF example_result_clean] s
  obtain flux unc where
    "numeric ?sel ''flux_fit'' = Inr flux" "numeric ?sel ''flux_unc'' = Inr unc"
    "numeric [(''x_fit'', NumCol [1]), (''y_fit'', NumCol [2]),
          (''flux_fit'', NumCol [10]), (''flux_unc'', NumCol [1]),
          (''F115W_inst'', NumCol [- 2.5 * log 10 10]),
          (''eF115W_inst'', NumCol [1.086 * (1 / 10)])] (''F115W'' @ ''_inst'') =
       Inr (map (\<lambda>f. - 2.5 * log 10 f) flux)"
    by auto
  then show ?thesis
    using example_result_clean by (simp add: numeric_Inr)
qed

text \<open>
  C10. Every catalog of a filter is cleaned with the bounds of the first image of the
  filter, \<^verbatim>\<open>images_1[0].shape\<close>, whatever the shape of its own image.
\<close>

theorem results_clean_bounds_of_first_image:
  assumes "results_clean_1 filt images results = Inr out"
  shows "length out = length images \<and>
     (\<forall>i<length images. i < length results \<and>
        result_clean_1 filt (shape (images ! 0)) (results ! i) = Inr (out ! i))"
  using assms
  by (auto simp: results_clean_1_def for_each_Inr and_then_Inr list_get_Inr)

lemma example_results_clean:
  "results_clean_1 ''F115W'' example_images [example_catalog, example_catalog] =
     Inr [[(''x_fit'', NumCol [1, 5]), (''y_fit'', NumCol [2, 2]),
           (''flux_fit'', NumCol [10, 1]), (''flux_unc'', NumCol [1, 1]),
           (''F115W_inst'', NumCol [- 2.5 * log 10 10, - 2.5 * log 10 1]),
           (''eF115W_inst'', NumCol [1.086 * (1 / 10), 1.086 * (1 / 1)])],
          [(''x_fit'', NumCol [1, 5]), (''y_fit'', NumCol [2, 2]),
           (''flux_fit'', NumCol [10, 1]), (''flux_unc'', NumCol [1, 1]),
           (''F115W_inst'', NumCol [- 2.5 * log 10 10, - 2.5 * log 10 1]),
           (''eF115W_inst'', NumCol [1.086 * (1 / 10), 1.086 * (1 / 1)])]]"
  by (simp add: results_clean_1_def result_clean_1_def select_mask_1_def mask_1_def
      add_inst_1_def table_defs example_catalog_def example_images_def upt_rec)

theorem results_clean_bounds_of_first_image_witness:
  "\<exists>out. results_clean_1 ''F115W'' example_images [example_catalog, example_catalog] = Inr out \<and>
     shape (example_images ! 1) = (4, 4) \<and>
     result_clean_1 ''F115W'' (10, 10) example_catalog = Inr (out ! 1) \<and>
     result_clean_1 ''F115W'' (4, 4) example_catalog \<noteq> Inr (out ! 1)"
proof -
  note results_clean_bounds_of_first_image
    [OF example_results_clean, THEN conjunct2, THEN spec, of 1]
  then have "result_clean_1 ''F115W'' (10, 10) example_catalog =
     Inr [(''x_fit'', NumCol [1, 5]), (''y_fit'', NumCol [2, 2]),
           (''flux_fit'', NumCol [10, 1]), (''flux_unc'', NumCol [1, 1]),
           (''F115W_inst'', NumCol [- 2.5 * log 10 10, - 2.5 * log 10 1]),
           (''eF115W_inst'', NumCol [1.086 * (1 / 10), 1.086 * (1 / 1)])]"
    by (simp add: example_images_def)
  then show ?thesis
    using example_results_clean example_result_clean
    by (simp add: example_images_def)
qed

section \<open>Pixel to sky\<close>

lemma wrap_360_bounds: "0 \<le> wrap_360 a" "wrap_360 a < 360"
proof -
  have "of_int \<lfloor>a / 360\<rfloor> \<le> a / 360" and "a / 360 < of_int \<lfloor>a / 360\<rfloor> + 1"
    by linarith+
  then show "0 \<le> wrap_360 a" and "wrap_360 a < 360"
    by (simp_all add: wrap_360_def field_simps)
qed


lemma SkyCoord_Inr:
  "SkyCoord ra dec = Inr ps \<longleftrightarrow>
     length ra = length dec \<and> list_all (\<lambda>d. - 90 \<le> d \<and> d \<le> 90) dec \<and>
     ps = zip (map wrap_360 ra) dec"
proof -
  have "list_ex (\<lambda>d. d < - 90 \<or> 90 < d) dec \<longleftrightarrow>
      \<not> list_all (\<lambda>d. - 90 \<le> d \<and> d \<le> 90) dec"
    by (induction dec) auto
  then show ?thesis
    by (auto simp: SkyCoord_def)
qed






section \<open>The field-of-view selection\<close>

lemma sort_pair:
  "sort [a, b] ! 0 = min a (b::real)" "sort [a, b] ! 1 = max a b"
  "sort [a, b] ! Suc 0 = max a b"
  by (auto simp: min_def max_def)

lemma nrows_take_rows_Nil: "nrows (take_rows [] t) = 0"
  by (cases t; cases "snd (hd t)") (auto simp: take_rows_def)

lemma cat_sel_min_max:
  "cat_sel images c =
     and_then (list_get images 0) (\<lambda>im0.
       and_then
         (mask_and (mask_and (mask_and
            (gt (numeric c ''ra_in'')
               (min (fst (wcs im0 0 0))
                    (fst (wcs im0 (real (snd (shape im0)) - 1) (real (fst (shape im0)) - 1)))))
            (lt (numeric c ''ra_in'')
               (max (fst (wcs im0 0 0))
                    (fst (wcs im0 (real (snd (shape im0)) - 1) (real (fst (shape im0)) - 1))))))
            (gt (numeric c ''dec_in'') (snd (wcs im0 0 0))))
            (lt (numeric c ''dec_in'')
               (snd (wcs im0 (real (snd (shape im0)) - 1) (real (fst (shape im0)) - 1)))))
         (\<lambda>m. table_mask m c))"
  by (simp add: cat_sel_def Let_def case_prod_beta sort_pair del: sort_key_simps)

lemma cat_sel_Inr:
  assumes "cat_sel images c = Inr cs"
  shows "images \<noteq> [] \<and>
     (\<exists>ra dec. numeric c ''ra_in'' = Inr ra \<and> numeric c ''dec_in'' = Inr dec \<and>
        length dec = length ra \<and> nrows c = length ra \<and>
        cs = take_rows (filter (\<lambda>k.
               min (fst (wcs (images ! 0) 0 0))
                   (fst (wcs (images ! 0) (real (snd (shape (images ! 0))) - 1)
                                         (real (fst (shape (images ! 0))) - 1))) < ra ! k \<and>
               ra ! k < max (fst (wcs (images ! 0) 0 0))
                   (fst (wcs (images ! 0) (real (snd (shape (images ! 0))) - 1)
                                         (real (fst (shape (images ! 0))) - 1))) \<and>
               snd (wcs (images ! 0) 0 0) < dec ! k \<and>
               dec ! k < snd (wcs (images ! 0) (real (snd (shape (images ! 0))) - 1)
                                              (real (fst (shape (images ! 0))) - 1)))
             [0..<nrows c]) c)"
proof -
  let ?im = "images ! 0"
  let ?lo = "wcs ?im 0 0"
  let ?hi = "wcs ?im (real (snd (shape ?im)) - 1) (real (fst (shape ?im)) - 1)"
  let ?P = "\<lambda>ra dec k. min (fst ?lo) (fst ?hi) < ra ! k \<and> ra ! k < max (fst ?lo) (fst ?hi) \<and>
               snd ?lo < dec ! k \<and> dec ! k < snd ?hi"
  from assms have ne: "images \<noteq> []"
    by (auto simp: cat_sel_min_max and_then_Inr list_get_Inr)
  from assms obtain m where
    m: "mask_and (mask_and (mask_and
              (gt (numeric c ''ra_in'') (min (fst ?lo) (fst ?hi)))
              (lt (numeric c ''ra_in'') (max (fst ?lo) (fst ?hi))))
              (gt (numeric c ''dec_in'') (snd ?lo)))
              (lt (numeric c ''dec_in'') (snd ?hi)) = Inr m"
    and t: "table_mask m c = Inr cs"
    by (auto simp: cat_sel_min_max and_then_Inr list_get_Inr)
  from m obtain ra dec where
    ra: "numeric c ''ra_in'' = Inr ra" and dec: "numeric c ''dec_in'' = Inr dec" and
    len: "length dec = length ra"
    by (auto simp: mask_and_Inr gt_Inr lt_Inr)
  with m have meq: "m = map (?P ra dec) [0..<length ra]"
    by (auto simp: mask_and_Inr gt_Inr lt_Inr intro!: nth_equalityI)
  have lm: "length m = length ra" by (simp add: meq)
  from t have all: "list_all (\<lambda>p. col_len (snd p) = length ra) c"
    and cs: "cs = take_rows (nonzero m) c"
    by (simp_all add: table_mask_Inr lm)
  from ra have "map_of c ''ra_in'' = Some (NumCol ra)" by (simp add: numeric_Inr)
  with all have n: "nrows c = length ra" by (rule nrows_uniform)
  have "nonzero m = filter (?P ra dec) [0..<nrows c]"
    unfolding meq n by (rule nonzero_map_upt)
  with cs ra dec len n ne show ?thesis by auto
qed

text \<open>
  C5. The selected sub-catalog consists of the rows of the input catalog at exactly the
  positions where \<open>ra_in\<close> lies strictly between the smaller and the larger of the right
  ascensions of the corner pixels (0, 0) and (width - 1, height - 1) under the WCS of the
  first image, and \<open>dec_in\<close> lies strictly between the declination of corner (0, 0) and
  that of corner (width - 1, height - 1), in that order.
\<close>

theorem cat_sel_field_of_view:
  assumes "cat_sel images c = Inr cs"
  shows "\<exists>ra dec. numeric c ''ra_in'' = Inr ra \<and> numeric c ''dec_in'' = Inr dec \<and>
        cs = take_rows (filter (\<lambda>k.
               min (fst (wcs (images ! 0) 0 0))
                   (fst (wcs (images ! 0) (real (snd (shape (images ! 0))) - 1)
                                         (real (fst (shape (images ! 0))) - 1))) < ra ! k \<and>
               ra ! k < max (fst (wcs (images ! 0) 0 0))
                   (fst (wcs (images ! 0) (real (snd (shape (images ! 0))) - 1)
                                         (real (fst (shape (images ! 0))) - 1))) \<and>
               snd (wcs (images ! 0) 0 0) < dec ! k \<and>
               dec ! k < snd (wcs (images ! 0) (real (snd (shape (images ! 0))) - 1)
                                              (real (fst (shape (images ! 0))) - 1)))
             [0..<nrows c]) c"
  using cat_sel_Inr [OF assms] by blast

lemma cat_sel_total:
  assumes "images \<noteq> []" "numeric c ''ra_in'' = Inr ra" "numeric c ''dec_in'' = Inr dec"
    "well_formed c"
  shows "\<exists>cs. cat_sel images c = Inr cs"
proof -
  from assms(2,4) have all: "list_all (\<lambda>p. col_len (snd p) = length ra) c"
    using nrows_uniform(2) [of "nrows c" c "''ra_in''" "NumCol ra"]
    by (simp add: well_formed_def numeric_Inr)
  with assms(3) have "length dec = length ra"
    using nrows_uniform(2) [of "length ra" c "''dec_in''" "NumCol dec"]
    by (simp add: numeric_Inr)
  with assms all show ?thesis
    by (simp add: cat_sel_min_max list_get_def mask_and_def gt_def lt_def table_mask_Inr)
qed

text \<open>
  C9. The declination limits are not sorted: on a well-formed catalog with numeric
  \<open>ra_in\<close> and \<open>dec_in\<close>, when the declination of corner (0, 0) is greater than or equal
  to the declination of corner (width - 1, height - 1), the selection returns the
  catalog with no rows, whatever the catalog holds.
\<close>

theorem cat_sel_empty_when_dec_descends:
  assumes "images \<noteq> []" "numeric c ''ra_in'' = Inr ra" "numeric c ''dec_in'' = Inr dec"
    "well_formed c"
    "snd (wcs (images ! 0) (real (snd (shape (images ! 0))) - 1)
                           (real (fst (shape (images ! 0))) - 1))
       \<le> snd (wcs (images ! 0) 0 0)"
  shows "cat_sel images c = Inr (take_rows [] c) \<and> nrows (take_rows [] c) = 0"
proof -
  from cat_sel_total [OF assms(1-4)] obtain cs where cs: "cat_sel images c = Inr cs" ..
  from cat_sel_Inr [OF cs] assms(2,3,5) have "cs = take_rows [] c"
    by (auto simp: not_less intro!: arg_cong2 [where f = take_rows] filter_False)
  with cs show ?thesis by (simp add: nrows_take_rows_Nil)
qed

theorem cat_sel_field_of_view_witness:
  "cat_sel example_images example_lmc =
     Inr [(''index'', NumCol [0, 1]), (''ra_in'', NumCol [1, 5]),
          (''dec_in'', NumCol [2, 2]), (''F115W'', NumCol [18, 19]),
          (''F200W'', NumCol [17.5, 19])] \<and>
   (\<exists>ra dec. numeric example_lmc ''ra_in'' = Inr ra \<and> numeric example_lmc ''dec_in'' = Inr dec \<and>
      [(''index'', NumCol [0, 1]), (''ra_in'', NumCol [1, 5]),
       (''dec_in'', NumCol [2, 2]), (''F115W'', NumCol [18, 19]),
       (''F200W'', NumCol [17.5, 19])] =
      take_rows (filter (\<lambda>k. 0 < ra ! k \<and> ra ! k < 9 \<and> 0 < dec ! k \<and> dec ! k < 9) [0..<3])
        example_lmc)"
proof -
  have h: "cat_sel example_images example_lmc =
     Inr [(''index'', NumCol [0, 1]), (''ra_in'', NumCol [1, 5]),
          (''dec_in'', NumCol [2, 2]), (''F115W'', NumCol [18, 19]),
          (''F200W'', NumCol [17.5, 19])]"
    by (simp add: cat_sel_def table_defs example_images_def example_lmc_def upt_rec)
  have n: "nrows example_lmc = 3"
    by (simp add: example_lmc_def)
  from cat_sel_field_of_view [OF h] h show ?thesis
    unfolding n by (simp add: example_images_def)
qed

theorem cat_sel_empty_when_dec_descends_witness:
  "numeric example_lmc_south ''dec_in'' = Inr [- 2, - 3] \<and>
   snd (wcs (example_descending ! 0) 9 9) \<le> snd (wcs (example_descending ! 0) 0 0) \<and>
   cat_sel example_descending example_lmc_south =
     Inr [(''index'', NumCol []), (''ra_in'', NumCol []), (''dec_in'', NumCol []),
          (''F115W'', NumCol []), (''F200W'', NumCol [])]"
proof -
  have 1: "example_descending \<noteq> []"
    by (simp add: example_descending_def)
  have 2: "numeric example_lmc_south ''ra_in'' = Inr [1, 5]"
    by (simp add: example_lmc_south_def table_defs)
  have 3: "numeric example_lmc_south ''dec_in'' = Inr [- 2, - 3]"
    by (simp add: example_lmc_south_def table_defs)
  have 4: "well_formed example_lmc_south"
    by (simp add: example_lmc_south_def well_formed_def)
  have 5: "snd (wcs (example_descending ! 0)
                 (real (snd (shape (example_descending ! 0))) - 1)
                 (real (fst (shape (example_descending ! 0))) - 1))
             \<le> snd (wcs (example_descending ! 0) 0 0)"
    by (simp add: example_descending_def)
  from cat_sel_empty_when_dec_descends [OF 1 2 3 4 5] 3 show ?thesis
    by (simp add: example_descending_def example_lmc_south_def take_rows_def)
qed

section \<open>The cross-match\<close>

lemma nearest_less: "ds \<noteq> [] \<Longrightarrow> nearest ds < length ds"
  by (induction ds rule: nearest.induct) (auto simp: Let_def)

lemma nearest_le: "x \<in> set ds \<Longrightarrow> ds ! nearest ds \<le> x"
proof (induction ds rule: nearest.induct)
  case 1
  then show ?case by simp
next
  case (2 d)
  then show ?case by simp
next
  case (3 d e ds)
  then show ?case by (fastforce simp: Let_def)
qed

lemma nearest_Min: "ds \<noteq> [] \<Longrightarrow> ds ! nearest ds = Min (set ds)"
  by (rule Min_eqI [symmetric]) (auto simp: nearest_le nearest_less)

lemma nonzero_map: "nonzero (map P xs) = filter (\<lambda>k. P (xs ! k)) [0..<length xs]"
  by (auto simp: nonzero_def intro: filter_cong)

lemma match_coordinates_sky_Inr:
  assumes "match_coordinates_sky sep c1 c2 = Inr (idx, d2d)"
  shows "c2 \<noteq> []" "length idx = length c1" "length d2d = length c1"
    "idx = map (\<lambda>p. nearest (map (sep p) c2)) c1"
    "d2d = map (\<lambda>p. Min (sep p ` set c2)) c1"
proof -
  from assms show ne: "c2 \<noteq> []" and idx: "idx = map (\<lambda>p. nearest (map (sep p) c2)) c1"
    by (auto simp: match_coordinates_sky_def split: if_splits)
  from idx show "length idx = length c1" by simp
  have "sep p (c2 ! nearest (map (sep p) c2)) = Min (sep p ` set c2)" for p
    using nearest_Min [of "map (sep p) c2"] nearest_less [of "map (sep p) c2"] ne
    by simp
  with assms ne show d: "d2d = map (\<lambda>p. Min (sep p ` set c2)) c1"
    by (auto simp: match_coordinates_sky_def)
  then show "length d2d = length c1" by simp
qed

lemma sep_constraint_nonzero:
  assumes "match_coordinates_sky sep c1 c2 = Inr (idx, d2d)"
  shows "nonzero (map (\<lambda>d. arcsec d / pixelscale < max_sep) d2d) = matched sep c1 c2"
proof -
  have "nonzero (map (\<lambda>d. arcsec d / pixelscale < max_sep) d2d) =
        filter (\<lambda>k. arcsec (d2d ! k) / pixelscale < max_sep) [0..<length d2d]"
    by (rule nonzero_map)
  also have "\<dots> = matched sep c1 c2"
    unfolding matched_def match_coordinates_sky_Inr(3) [OF assms]
    by (rule filter_cong)
      (simp_all add: match_coordinates_sky_Inr(5) [OF assms] max_sep_def pixelscale_def)
  finally show ?thesis .
qed

lemma match_phot_Inr:
  assumes "match_phot sep res1 res2 = Inr (m1, m2)"
  shows "\<exists>c1 c2. coords res1 ''radec'' = Inr c1 \<and> coords res2 ''radec'' = Inr c2 \<and>
           c2 \<noteq> [] \<and> nrows res1 = length c1 \<and>
           m1 = take_rows (matched sep c1 c2) res1 \<and>
           m2 = take_rows (map (\<lambda>k. nearest (map (sep (c1 ! k)) c2)) (matched sep c1 c2)) res2"
proof -
  from assms obtain c1 c2 idx d2d sel where
    c1: "coords res1 ''radec'' = Inr c1" and c2: "coords res2 ''radec'' = Inr c2" and
    mcs: "match_coordinates_sky sep c1 c2 = Inr (idx, d2d)" and
    t1: "table_mask (map (\<lambda>d. arcsec d / pixelscale < max_sep) d2d) res1 = Inr m1" and
    s: "mask_index (map (\<lambda>d. arcsec d / pixelscale < max_sep) d2d) idx = Inr sel" and
    t2: "table_index sel res2 = Inr m2"
    by (auto simp: match_phot_def and_then_Inr Let_def)
  note nz = sep_constraint_nonzero [OF mcs]
  note o = match_coordinates_sky_Inr [OF mcs]
  from t1 have m1: "m1 = take_rows (matched sep c1 c2) res1"
    and all1: "list_all (\<lambda>p. col_len (snd p) = length c1) res1"
    by (simp_all add: table_mask_Inr nz o(3))
  from c1 all1 have n1: "nrows res1 = length c1"
    by (auto simp: coords_Inr dest: nrows_uniform(1))
  have w: "k < length c1" if "k \<in> set (matched sep c1 c2)" for k
    using that by (simp add: matched_def)
  from s have "sel = map (\<lambda>k. idx ! k) (matched sep c1 c2)"
    by (auto simp: mask_index_def nz split: if_splits)
  also have "\<dots> = map (\<lambda>k. nearest (map (sep (c1 ! k)) c2)) (matched sep c1 c2)"
    by (rule map_cong) (simp_all add: o(4) w)
  finally have sel: "sel = map (\<lambda>k. nearest (map (sep (c1 ! k)) c2)) (matched sep c1 c2)" .
  from t2 have m2: "m2 = take_rows sel res2"
    by (simp add: table_index_Inr)
  show ?thesis
    using c1 c2 o(1) n1 m1 m2 sel by blast
qed

lemma matches_phot_nth:
  assumes "matches_phot sep finals_1 finals_2 = Inr ms"
  shows "length ms = length finals_1 * length finals_2"
    and "i < length finals_1 \<Longrightarrow> j < length finals_2 \<Longrightarrow>
           match_phot sep (finals_1 ! i) (finals_2 ! j) = Inr (ms ! (i * length finals_2 + j))"
proof -
  from assms show len: "length ms = length finals_1 * length finals_2"
    by (simp add: matches_phot_def for_each_Inr)
  assume i: "i < length finals_1" and j: "j < length finals_2"
  have "i * length finals_2 + j < Suc i * length finals_2"
    using j by simp
  also have "\<dots> \<le> length finals_1 * length finals_2"
    using i by (intro mult_le_mono1) simp
  finally have n: "i * length finals_2 + j < length finals_1 * length finals_2" .
  from j have "length finals_2 \<noteq> 0"
    by (cases finals_2) simp_all
  with j have "(j + i * length finals_2) div length finals_2 = i"
    and "(j + i * length finals_2) mod length finals_2 = j"
    by simp_all
  then have "(i * length finals_2 + j) div length finals_2 = i"
    and "(i * length finals_2 + j) mod length finals_2 = j"
    by (simp_all add: add.commute)
  with n have "List.product finals_1 finals_2 ! (i * length finals_2 + j) =
      (finals_1 ! i, finals_2 ! j)"
    by (simp add: product_nth)
  with assms n show "match_phot sep (finals_1 ! i) (finals_2 ! j) =
      Inr (ms ! (i * length finals_2 + j))"
    by (auto simp: matches_phot_def for_each_Inr)
qed

lemma nrows_update:
  "t \<noteq> [] \<Longrightarrow> col_len c = nrows t \<Longrightarrow> nrows (AList.update name c t) = nrows t"
  by (cases t) auto

lemma col_len_pick: "col_len (pick idx c) = length idx"
  by (cases c) simp_all

lemma update_nonempty: "AList.update name c t \<noteq> []"
  by (cases t) auto

lemma match_phot_inp_Inr:
  assumes "match_phot_inp sep filt1 filt2 cs mp1 mp2 = Inr (mpi, o1, o2)"
  shows "\<exists>ra dec rin c1 e1 e2.
     numeric cs ''ra_in'' = Inr ra \<and> numeric cs ''dec_in'' = Inr dec \<and>
     SkyCoord ra dec = Inr rin \<and> mp1 \<noteq> [] \<and> mp2 \<noteq> [] \<and>
     coords (mp1 ! 0) ''radec'' = Inr c1 \<and> c1 \<noteq> [] \<and>
     col_len e1 = length (matched sep (rin) c1) \<and>
     col_len e2 = length (matched sep (rin) c1) \<and>
     mpi = AList.update filt2 e2 (AList.update filt1 e1
             [(''radec'', SkyCol (map (\<lambda>k. rin ! k) (matched sep (rin) c1)))]) \<and>
     o1 = take_rows (map (\<lambda>k. nearest (map (sep (rin ! k)) c1))
                      (matched sep (rin) c1)) (mp1 ! 0) \<and>
     o2 = take_rows (map (\<lambda>k. nearest (map (sep (rin ! k)) c1))
                      (matched sep (rin) c1)) (mp2 ! 0)"
proof -
  from assms obtain ra dec rin c1 idx d2d radec f1 f1' f2 f2' t0 t1 sel where
    ra: "numeric cs ''ra_in'' = Inr ra" and dec: "numeric cs ''dec_in'' = Inr dec" and
    len: "SkyCoord ra dec = Inr rin" and
    g1: "mp1 \<noteq> []" and g2: "mp2 \<noteq> []" and
    c1: "coords (mp1 ! 0) ''radec'' = Inr c1" and
    mcs: "match_coordinates_sky sep (rin) c1 = Inr (idx, d2d)" and
    r: "mask_index (map (\<lambda>d. arcsec d / pixelscale < max_sep) d2d) (rin) = Inr radec" and
    t0: "setitem [] ''radec'' (SkyCol radec) = Inr t0" and
    f1: "col_mask (map (\<lambda>d. arcsec d / pixelscale < max_sep) d2d) f1 = Inr f1'" and
    t1: "setitem t0 filt1 f1' = Inr t1" and
    f2: "col_mask (map (\<lambda>d. arcsec d / pixelscale < max_sep) d2d) f2 = Inr f2'" and
    t2: "setitem t1 filt2 f2' = Inr mpi" and
    s: "mask_index (map (\<lambda>d. arcsec d / pixelscale < max_sep) d2d) idx = Inr sel" and
    o1: "table_index sel (mp1 ! 0) = Inr o1" and o2: "table_index sel (mp2 ! 0) = Inr o2"
    by (auto simp: match_phot_inp_def and_then_Inr Let_def list_get_Inr)
  note nz = sep_constraint_nonzero [OF mcs]
  note o = match_coordinates_sky_Inr [OF mcs]
  let ?I = "matched sep (rin) c1"
  from r have radec: "radec = map (\<lambda>k. rin ! k) ?I"
    by (auto simp: mask_index_def nz split: if_splits)
  from f1 have e1: "col_len f1' = length ?I"
    by (simp add: col_mask_Inr nz col_len_pick)
  from f2 have e2: "col_len f2' = length ?I"
    by (simp add: col_mask_Inr nz col_len_pick)
  from t0 t1 t2 have mpi: "mpi = AList.update filt2 f2' (AList.update filt1 f1'
             [(''radec'', SkyCol (map (\<lambda>k. rin ! k) ?I))])"
    by (auto simp: setitem_Inr radec)
  have w: "k < length (rin)" if "k \<in> set ?I" for k
    using that by (simp add: matched_def)
  from s have "sel = map (\<lambda>k. idx ! k) ?I"
    by (auto simp: mask_index_def nz split: if_splits)
  also have "\<dots> = map (\<lambda>k. nearest (map (sep (rin ! k)) c1)) ?I"
    by (rule map_cong) (simp_all add: o(4) w)
  finally have sel: "sel = map (\<lambda>k. nearest (map (sep (rin ! k)) c1)) ?I" .
  from o1 o2 have "o1 = take_rows sel (mp1 ! 0)" "o2 = take_rows sel (mp2 ! 0)"
    by (simp_all add: table_index_Inr)
  with ra dec len g1 g2 c1 o(1) e1 e2 mpi sel show ?thesis by blast
qed

lemma match_phot_nrows:
  assumes "match_phot sep res1 res2 = Inr (m1, m2)"
  shows "nrows m1 = nrows m2" "m1 \<noteq> []" "m2 \<noteq> []"
proof -
  from match_phot_Inr [OF assms] obtain c1 c2 where
    c1: "coords res1 ''radec'' = Inr c1" and c2: "coords res2 ''radec'' = Inr c2" and
    m1: "m1 = take_rows (matched sep c1 c2) res1" and
    m2: "m2 = take_rows (map (\<lambda>k. nearest (map (sep (c1 ! k)) c2)) (matched sep c1 c2)) res2"
    by blast
  from c1 have 1: "res1 \<noteq> []" by (auto simp: coords_Inr)
  from c2 have 2: "res2 \<noteq> []" by (auto simp: coords_Inr)
  from 1 2 show "nrows m1 = nrows m2"
    by (simp add: m1 m2 nrows_take_rows)
  from 1 show "m1 \<noteq> []" by (simp add: m1 take_rows_def)
  from 2 show "m2 \<noteq> []" by (simp add: m2 take_rows_def)
qed

text \<open>
  C1. For every pair of final catalogs, the matched filter-1 table consists of the rows
  of the filter-1 catalog at exactly the positions whose separation to the nearest
  filter-2 coordinate, in arcseconds and divided by 0.031, is strictly less than 0.5.
  The same test selects the rows of the field-of-view catalog in its cross-match with
  the first matched photometry catalog.
\<close>

theorem cross_match_threshold:
  "(matches_phot sep finals_1 finals_2 = Inr ms \<longrightarrow>
      (\<forall>i<length finals_1. \<forall>j<length finals_2. \<exists>c1 c2.
         coords (finals_1 ! i) ''radec'' = Inr c1 \<and> coords (finals_2 ! j) ''radec'' = Inr c2 \<and>
         nrows (finals_1 ! i) = length c1 \<and>
         fst (ms ! (i * length finals_2 + j)) =
           take_rows (filter (\<lambda>k. arcsec (Min (sep (c1 ! k) ` set c2)) / 0.031 < 0.5)
                        [0..<length c1]) (finals_1 ! i))) \<and>
   (match_phot_inp sep filt1 filt2 cs mp1 mp2 = Inr (mpi, o1, o2) \<longrightarrow>
      (\<exists>ra dec rin c1 e1 e2.
         numeric cs ''ra_in'' = Inr ra \<and> numeric cs ''dec_in'' = Inr dec \<and>
         SkyCoord ra dec = Inr rin \<and>
         coords (mp1 ! 0) ''radec'' = Inr c1 \<and>
         mpi = AList.update filt2 e2 (AList.update filt1 e1
           [(''radec'', SkyCol (map (\<lambda>k. rin ! k)
              (filter (\<lambda>k. arcsec (Min (sep (rin ! k) ` set c1)) / 0.031 < 0.5)
                 [0..<length (rin)])))])))"
proof (intro conjI impI allI)
  fix i j
  assume ms: "matches_phot sep finals_1 finals_2 = Inr ms"
    and i: "i < length finals_1" and j: "j < length finals_2"
  from matches_phot_nth(2) [OF ms i j]
  have "match_phot sep (finals_1 ! i) (finals_2 ! j) =
      Inr (fst (ms ! (i * length finals_2 + j)), snd (ms ! (i * length finals_2 + j)))"
    by simp
  from match_phot_Inr [OF this]
  show "\<exists>c1 c2.
         coords (finals_1 ! i) ''radec'' = Inr c1 \<and> coords (finals_2 ! j) ''radec'' = Inr c2 \<and>
         nrows (finals_1 ! i) = length c1 \<and>
         fst (ms ! (i * length finals_2 + j)) =
           take_rows (filter (\<lambda>k. arcsec (Min (sep (c1 ! k) ` set c2)) / 0.031 < 0.5)
                        [0..<length c1]) (finals_1 ! i)"
    unfolding matched_def by blast
next
  assume "match_phot_inp sep filt1 filt2 cs mp1 mp2 = Inr (mpi, o1, o2)"
  from match_phot_inp_Inr [OF this]
  show "\<exists>ra dec rin c1 e1 e2.
         numeric cs ''ra_in'' = Inr ra \<and> numeric cs ''dec_in'' = Inr dec \<and>
         SkyCoord ra dec = Inr rin \<and>
         coords (mp1 ! 0) ''radec'' = Inr c1 \<and>
         mpi = AList.update filt2 e2 (AList.update filt1 e1
           [(''radec'', SkyCol (map (\<lambda>k. rin ! k)
              (filter (\<lambda>k. arcsec (Min (sep (rin ! k) ` set c1)) / 0.031 < 0.5)
                 [0..<length (rin)])))])"
    unfolding matched_def by blast
qed

text \<open>
  C2. For every pair of final catalogs and every position \<open>k\<close> of the matched tables,
  the filter-2 row at position \<open>k\<close> is a row of the filter-2 catalog whose separation from
  the filter-1 row at position \<open>k\<close> is minimal over the whole filter-2 catalog.
\<close>

theorem matched_row_is_nearest:
  assumes "matches_phot sep finals_1 finals_2 = Inr ms"
    and "i < length finals_1" and "j < length finals_2"
  shows "\<exists>c2 a nn.
     coords (finals_2 ! j) ''radec'' = Inr c2 \<and>
     coords (fst (ms ! (i * length finals_2 + j))) ''radec'' = Inr a \<and>
     snd (ms ! (i * length finals_2 + j)) = take_rows nn (finals_2 ! j) \<and>
     length nn = length a \<and>
     (\<forall>k<length a. nn ! k < length c2 \<and>
        (\<forall>q<length c2. sep (a ! k) (c2 ! (nn ! k)) \<le> sep (a ! k) (c2 ! q)))"
proof -
  let ?n = "i * length finals_2 + j"
  from matches_phot_nth(2) [OF assms]
  have "match_phot sep (finals_1 ! i) (finals_2 ! j) = Inr (fst (ms ! ?n), snd (ms ! ?n))"
    by simp
  from match_phot_Inr [OF this] obtain c1 c2 where
    c1: "coords (finals_1 ! i) ''radec'' = Inr c1" and
    c2: "coords (finals_2 ! j) ''radec'' = Inr c2" and ne: "c2 \<noteq> []" and
    m1: "fst (ms ! ?n) = take_rows (matched sep c1 c2) (finals_1 ! i)" and
    m2: "snd (ms ! ?n) =
           take_rows (map (\<lambda>k. nearest (map (sep (c1 ! k)) c2)) (matched sep c1 c2))
             (finals_2 ! j)"
    by blast
  let ?I = "matched sep c1 c2"
  let ?a = "map (\<lambda>k. c1 ! k) ?I"
  let ?nn = "map (\<lambda>k. nearest (map (sep (c1 ! k)) c2)) ?I"
  from c1 have a: "coords (fst (ms ! ?n)) ''radec'' = Inr ?a"
    by (simp add: coords_Inr m1 map_of_take_rows)
  have "?nn ! k < length c2 \<and>
        (\<forall>q<length c2. sep (?a ! k) (c2 ! (?nn ! k)) \<le> sep (?a ! k) (c2 ! q))"
    if k: "k < length ?a" for k
  proof -
    let ?p = "c1 ! (?I ! k)"
    from ne have l: "nearest (map (sep ?p) c2) < length c2"
      using nearest_less [of "map (sep ?p) c2"] by simp
    have "sep ?p (c2 ! nearest (map (sep ?p) c2)) \<le> sep ?p (c2 ! q)" if "q < length c2" for q
      using nearest_le [of "sep ?p (c2 ! q)" "map (sep ?p) c2"] l that by simp
    with l k show ?thesis by simp
  qed
  with c2 a m2 show ?thesis
    by (intro exI [of _ c2] exI [of _ ?a] exI [of _ ?nn]) simp
qed

text \<open>
  C8. The two matched tables of every pair have the same number of rows, and so have the
  three tables of the cross-match with the input catalog.
\<close>

theorem matched_tables_same_length:
  assumes "matches_phot sep finals_1 finals_2 = Inr ms"
  shows "(\<forall>k<length ms. nrows (fst (ms ! k)) = nrows (snd (ms ! k))) \<and>
     (\<forall>filt1 filt2 cs mpi o1 o2.
        match_phot_inp sep filt1 filt2 cs (map fst ms) (map snd ms) = Inr (mpi, o1, o2) \<longrightarrow>
        nrows mpi = nrows o1 \<and> nrows o1 = nrows o2)"
proof -
  have each: "nrows (fst (ms ! k)) = nrows (snd (ms ! k)) \<and> fst (ms ! k) \<noteq> [] \<and>
      snd (ms ! k) \<noteq> []" if "k < length ms" for k
  proof -
    from assms that
    have "match_phot sep (fst (List.product finals_1 finals_2 ! k))
            (snd (List.product finals_1 finals_2 ! k)) = Inr (fst (ms ! k), snd (ms ! k))"
      by (auto simp: matches_phot_def for_each_Inr case_prod_beta)
    from match_phot_nrows [OF this] show ?thesis by simp
  qed
  have "nrows mpi = nrows o1 \<and> nrows o1 = nrows o2"
    if inp: "match_phot_inp sep filt1 filt2 cs (map fst ms) (map snd ms) = Inr (mpi, o1, o2)"
    for filt1 filt2 cs mpi o1 o2
  proof -
    from match_phot_inp_Inr [OF inp] obtain ra dec rin c1 e1 e2 where
      ne: "ms \<noteq> []" and
      e1: "col_len e1 = length (matched sep (rin) c1)" and
      e2: "col_len e2 = length (matched sep (rin) c1)" and
      mpi: "mpi = AList.update filt2 e2 (AList.update filt1 e1
             [(''radec'', SkyCol (map (\<lambda>k. rin ! k) (matched sep (rin) c1)))])" and
      o1: "o1 = take_rows (map (\<lambda>k. nearest (map (sep (rin ! k)) c1))
                      (matched sep (rin) c1)) (map fst ms ! 0)" and
      o2: "o2 = take_rows (map (\<lambda>k. nearest (map (sep (rin ! k)) c1))
                      (matched sep (rin) c1)) (map snd ms ! 0)"
      by auto
    from ne each [of 0] have "map fst ms ! 0 \<noteq> []" "map snd ms ! 0 \<noteq> []"
      by simp_all
    then have "nrows o1 = length (matched sep (rin) c1)"
      "nrows o2 = length (matched sep (rin) c1)"
      by (simp_all add: o1 o2 nrows_take_rows)
    moreover have "nrows mpi = length (matched sep (rin) c1)"
      by (simp add: mpi nrows_update update_nonempty e1 e2)
    ultimately show ?thesis by simp
  qed
  with each show ?thesis by blast
qed

lemmas example_defs = example_final_1_def example_final_2_def example_match_1_def
  example_match_2_def example_cat_sel_def example_match_inp_def sep_flat_def

lemmas match_defs = match_phot_def matches_phot_def match_phot_inp_def
  match_coordinates_sky_def arcsec_def pixelscale_def max_sep_def

lemma example_matches_phot:
  "matches_phot sep_flat [example_final_1] [example_final_2] =
     Inr [(example_match_1, example_match_2)]"
  by (simp add: match_defs table_defs example_defs)

lemma example_match_phot_inp:
  "match_phot_inp sep_flat ''F115W'' ''F200W'' example_cat_sel
     [example_match_1] [example_match_2] =
     Inr (example_match_inp, example_match_1, example_match_2)"
  by (simp add: match_defs table_defs example_defs)

theorem cross_match_threshold_witness:
  "matches_phot sep_flat [example_final_1] [example_final_2] =
     Inr [(example_match_1, example_match_2)] \<and>
   example_match_1 =
     take_rows (filter (\<lambda>k. arcsec (Min (sep_flat ([(1, 2), (5, 2), (7, 7)] ! k) `
                        set [(5.00001, 2), (1.000001, 2)])) / 0.031 < 0.5) [0..<3])
       example_final_1 \<and>
   match_phot_inp sep_flat ''F115W'' ''F200W'' example_cat_sel
     [example_match_1] [example_match_2] =
     Inr (example_match_inp, example_match_1, example_match_2) \<and>
   (\<exists>e1 e2. example_match_inp =
      AList.update ''F200W'' e2 (AList.update ''F115W'' e1
        [(''radec'', SkyCol (map (\<lambda>k. [(1, 2), (5, 2)] ! k)
           (filter (\<lambda>k. arcsec (Min (sep_flat ([(1, 2), (5, 2)] ! k) ` set [(1, 2)])) / 0.031 < 0.5)
              [0..<2])))]))"
proof -
  note t = cross_match_threshold [where sep = sep_flat and ?finals_1.0 = "[example_final_1]"
      and ?finals_2.0 = "[example_final_2]" and ms = "[(example_match_1, example_match_2)]"
      and ?filt1.0 = "''F115W''" and ?filt2.0 = "''F200W''" and cs = example_cat_sel
      and ?mp1.0 = "[example_match_1]" and ?mp2.0 = "[example_match_2]"
      and mpi = example_match_inp and ?o1.0 = example_match_1 and ?o2.0 = example_match_2]
  from t [THEN conjunct1, rule_format, OF example_matches_phot, of 0 0]
  have "\<exists>c1 c2. coords example_final_1 ''radec'' = Inr c1 \<and>
          coords example_final_2 ''radec'' = Inr c2 \<and>
          nrows example_final_1 = length c1 \<and>
          example_match_1 =
            take_rows (filter (\<lambda>k. arcsec (Min (sep_flat (c1 ! k) ` set c2)) / 0.031 < 0.5)
              [0..<length c1]) example_final_1"
    by simp
  then have a: "example_match_1 =
     take_rows (filter (\<lambda>k. arcsec (Min (sep_flat ([(1, 2), (5, 2), (7, 7)] ! k) `
                        set [(5.00001, 2), (1.000001, 2)])) / 0.031 < 0.5) [0..<3])
       example_final_1"
    by (auto simp: coords_Inr example_final_1_def example_final_2_def eval_nat_numeral)
  from t [THEN conjunct2, rule_format, OF example_match_phot_inp]
  have "\<exists>ra dec rin c1 e1 e2.
         numeric example_cat_sel ''ra_in'' = Inr ra \<and> numeric example_cat_sel ''dec_in'' = Inr dec \<and>
         SkyCoord ra dec = Inr rin \<and>
         coords ([example_match_1] ! 0) ''radec'' = Inr c1 \<and>
         example_match_inp = AList.update ''F200W'' e2 (AList.update ''F115W'' e1
           [(''radec'', SkyCol (map (\<lambda>k. rin ! k)
              (filter (\<lambda>k. arcsec (Min (sep_flat (rin ! k) ` set c1)) / 0.031 < 0.5)
                 [0..<length (rin)])))])"
    by blast
  then have b: "\<exists>e1 e2. example_match_inp =
      AList.update ''F200W'' e2 (AList.update ''F115W'' e1
        [(''radec'', SkyCol (map (\<lambda>k. [(1, 2), (5, 2)] ! k)
           (filter (\<lambda>k. arcsec (Min (sep_flat ([(1, 2), (5, 2)] ! k) ` set [(1, 2)])) / 0.031 < 0.5)
              [0..<2])))])"
    by (auto simp: coords_Inr numeric_Inr SkyCoord_Inr wrap_360_def example_cat_sel_def
        example_match_1_def eval_nat_numeral)
  from a b example_matches_phot example_match_phot_inp show ?thesis
    by blast
qed

theorem matched_row_is_nearest_witness:
  "\<exists>nn. coords example_match_1 ''radec'' = Inr [(1, 2)] \<and>
     example_match_2 = take_rows nn example_final_2 \<and> length nn = 1 \<and>
     sep_flat (1, 2) ([(5.00001, 2), (1.000001, 2)] ! (nn ! 0)) \<le> sep_flat (1, 2) (5.00001, 2) \<and>
     sep_flat (1, 2) ([(5.00001, 2), (1.000001, 2)] ! (nn ! 0)) \<le> sep_flat (1, 2) (1.000001, 2)"
proof -
  have i: "0 < length [example_final_1]" and j: "0 < length [example_final_2]"
    by simp_all
  from matched_row_is_nearest [OF example_matches_phot i j]
  obtain c2 a nn where
    c2: "coords example_final_2 ''radec'' = Inr c2" and
    a: "coords example_match_1 ''radec'' = Inr a" and
    m2: "example_match_2 = take_rows nn example_final_2" and
    len: "length nn = length a" and
    mn: "\<forall>k<length a. nn ! k < length c2 \<and>
        (\<forall>q<length c2. sep_flat (a ! k) (c2 ! (nn ! k)) \<le> sep_flat (a ! k) (c2 ! q))"
    by auto
  from c2 have c2': "c2 = [(5.00001, 2), (1.000001, 2)]"
    by (simp add: coords_Inr example_final_2_def)
  from a have a': "a = [(1, 2)]"
    by (simp add: coords_Inr example_match_1_def)
  from mn have "\<forall>q<length c2. sep_flat (a ! 0) (c2 ! (nn ! 0)) \<le> sep_flat (a ! 0) (c2 ! q)"
    by (simp add: a')
  then have q: "q < length c2 \<Longrightarrow>
      sep_flat (a ! 0) (c2 ! (nn ! 0)) \<le> sep_flat (a ! 0) (c2 ! q)" for q
    by blast
  from q [of 0] q [of 1]
  have "sep_flat (a ! 0) (c2 ! (nn ! 0)) \<le> sep_flat (a ! 0) (c2 ! 0)"
    and "sep_flat (a ! 0) (c2 ! (nn ! 0)) \<le> sep_flat (a ! 0) (c2 ! 1)"
    by (simp_all add: c2')
  with a m2 len show ?thesis
    by (intro exI [of _ nn]) (simp add: a' c2')
qed

theorem matched_tables_same_length_witness:
  "matches_phot sep_flat [example_final_1] [example_final_2] =
     Inr [(example_match_1, example_match_2)] \<and>
   nrows example_match_1 = nrows example_match_2 \<and>
   match_phot_inp sep_flat ''F115W'' ''F200W'' example_cat_sel
     [example_match_1] [example_match_2] =
     Inr (example_match_inp, example_match_1, example_match_2) \<and>
   nrows example_match_inp = nrows example_match_1 \<and>
   nrows example_match_1 = nrows example_match_2"
proof -
  note t = matched_tables_same_length [OF example_matches_phot]
  from t have "nrows (fst ([(example_match_1, example_match_2)] ! 0)) =
      nrows (snd ([(example_match_1, example_match_2)] ! 0))"
    by simp
  moreover from t example_match_phot_inp
  have "nrows example_match_inp = nrows example_match_1 \<and>
      nrows example_match_1 = nrows example_match_2"
    by simp
  ultimately show ?thesis
    using example_matches_phot example_match_phot_inp by simp
qed

section \<open>The run and the file system\<close>

lemma io_bind_keeps:
  assumes "\<And>fs. snd (m fs) = fs" and "\<And>v fs. snd (k v fs) = fs"
  shows "snd (io_bind m k fs) = fs"
proof (cases "m fs")
  case (Pair r fs1)
  with assms(1) [of fs] have "fs1 = fs" by simp
  with Pair assms(2) show ?thesis
    by (cases r) (simp_all add: io_bind_def)
qed

lemma io_bind_snd:
  assumes "\<And>v fs. snd (k v fs) = fs"
  shows "snd (io_bind m k fs) = snd (m fs)"
proof (cases "m fs")
  case (Pair r fs1)
  with assms show ?thesis
    by (cases r) (simp_all add: io_bind_def)
qed

lemma io_bind_Inl: "fst (m fs) = Inl e \<Longrightarrow> fst (io_bind m k fs) = Inl e"
  by (cases "m fs") (simp add: io_bind_def)

lemma io_pure_keeps: "snd (io_pure r fs) = fs"
  by (simp add: io_pure_def)

lemma io_for_each_keeps:
  assumes "\<And>x fs. snd (f x fs) = fs"
  shows "snd (io_for_each f xs fs) = fs"
  by (induction xs arbitrary: fs) (simp_all add: io_pure_keeps io_bind_keeps assms)

lemma io_fold_keeps:
  assumes "\<And>x st fs. snd (f x st fs) = fs"
  shows "snd (io_fold f xs st fs) = fs"
  by (induction xs arbitrary: st fs) (simp_all add: io_pure_keeps io_bind_keeps assms)

lemma glob_glob_keeps: "snd (glob_glob dir pre suf fs) = fs"
  by (simp add: glob_glob_def)

lemma open_read_keeps: "snd (open_read p fs) = fs"
  by (simp add: open_read_def split: option.splits)

lemma readers_keep:
  "snd (fits_open fm p fs) = fs" "snd (ImageModel fm p fs) = fs"
  "snd (read_pickle fm p fs) = fs" "snd (read_csv fm p fs) = fs"
  by (simp_all add: fits_open_def ImageModel_def read_pickle_def read_csv_def
      io_bind_keeps open_read_keeps io_pure_keeps)

lemma cell_3_keeps: "snd (cell_3 fm fs) = fs"
  unfolding cell_3_def
  by (intro io_bind_keeps io_fold_keeps glob_glob_keeps readers_keep io_pure_keeps)

lemma cell_3_2_keeps: "snd (cell_3_2 fm di det filt1 filt2 fs) = fs"
  unfolding cell_3_2_def
  by (intro io_bind_keeps io_for_each_keeps readers_keep io_pure_keeps)

lemma cell_3_3_keeps: "snd (cell_3_3 fm det filt1 filt2 fs) = fs"
  unfolding cell_3_3_def
  by (intro io_bind_keeps io_for_each_keeps glob_glob_keeps readers_keep io_pure_keeps)

lemma after_setup_keeps:
  "snd (io_bind (cell_3 fm) (\<lambda>di.
     io_bind (cell_3_2 fm di det filt1 filt2) (\<lambda>(images_1, images_2).
     io_bind (cell_3_3 fm det filt1 filt2) (\<lambda>(results_1, results_2).
     io_bind (io_pure (photometry sep filt1 filt2 images_1 images_2 results_1 results_2))
       (\<lambda>ms.
     io_bind (read_csv fm input_cat) (\<lambda>lmc.
       io_pure (comparison sep filt1 filt2 images_1 ms lmc)))))) fs) = fs"
  by (intro io_bind_keeps cell_3_keeps)
    (simp_all add: case_prod_beta io_bind_keeps cell_3_2_keeps cell_3_3_keeps io_pure_keeps
      readers_keep)

lemma make_figures_dir_cases:
  "make_figures_dir fs =
     (if ''FIGURES'' \<in> dirs fs then (Inr (), fs)
      else if map_of (files fs) ''FIGURES'' \<noteq> None then (Inl FileExistsError, fs)
      else (Inr (), fs\<lparr>dirs := insert ''FIGURES'' (dirs fs)\<rparr>))"
  by (simp add: make_figures_dir_def io_bind_def os_path_exists_def os_makedirs_def io_pure_def
      figures_dir_def strip_slash_def)

text \<open>
  C7, in the form that holds. A run creates, changes or deletes no file, and it changes
  the file system at most by creating the directory \<^verbatim>\<open>FIGURES\<close>: the file system after the
  run is the one before when a directory or a regular file of that name exists, and
  otherwise the one before with that directory added, whatever the files hold and
  whichever cell ends the run. When a regular file of that name exists and no directory,
  the setup cell ends the run with \<^verbatim>\<open>FileExistsError\<close>.
\<close>

theorem notebook_leaves_file_system:
  "snd (notebook fm sep det filt1 filt2 fs) =
     (if ''FIGURES'' \<in> dirs fs \<or> map_of (files fs) ''FIGURES'' \<noteq> None then fs
      else fs\<lparr>dirs := insert ''FIGURES'' (dirs fs)\<rparr>) \<and>
   (''FIGURES'' \<notin> dirs fs \<and> map_of (files fs) ''FIGURES'' \<noteq> None \<longrightarrow>
      fst (notebook fm sep det filt1 filt2 fs) = Inl FileExistsError)"
proof -
  let ?rest = "io_bind (cell_3 fm) (\<lambda>di.
     io_bind (cell_3_2 fm di det filt1 filt2) (\<lambda>(images_1, images_2).
     io_bind (cell_3_3 fm det filt1 filt2) (\<lambda>(results_1, results_2).
     io_bind (io_pure (photometry sep filt1 filt2 images_1 images_2 results_1 results_2))
       (\<lambda>ms.
     io_bind (read_csv fm input_cat) (\<lambda>lmc.
       io_pure (comparison sep filt1 filt2 images_1 ms lmc))))))"
  have n: "notebook fm sep det filt1 filt2 = io_bind make_figures_dir (\<lambda>_. ?rest)"
    by (simp add: notebook_def)
  have r: "snd (?rest fs1) = fs1" for fs1
    by (rule after_setup_keeps)
  have "snd (notebook fm sep det filt1 filt2 fs) = snd (make_figures_dir fs)"
    unfolding n by (rule io_bind_snd) (rule r)
  moreover have "fst (notebook fm sep det filt1 filt2 fs) = Inl FileExistsError"
    if "''FIGURES'' \<notin> dirs fs" "map_of (files fs) ''FIGURES'' \<noteq> None"
    unfolding n using that by (intro io_bind_Inl) (simp add: make_figures_dir_cases)
  ultimately show ?thesis
    by (simp add: make_figures_dir_cases)
qed

lemmas clean_defs = results_clean_1_def result_clean_1_def select_mask_1_def mask_1_def
  add_inst_1_def results_final_1_def result_final_1_def

lemmas io_defs = io_bind_def io_pure_def os_path_exists_def os_makedirs_def glob_glob_def
  open_read_def fits_open_def ImageModel_def read_pickle_def read_csv_def fnmatch_def
  strip_slash_def figures_dir_def images_dir_def cat_dir_def input_cat_def lower_def

lemma run_setup: "make_figures_dir example_fs = (Inr (), example_fs_figures)"
  by (simp add: make_figures_dir_cases example_fs_def example_fs_figures_def example_files_def)

lemma run_setup_blocked:
  "make_figures_dir example_fs_blocked = (Inl FileExistsError, example_fs_blocked)"
  by (simp add: make_figures_dir_cases example_fs_blocked_def)

lemma run_setup_again: "make_figures_dir example_fs_figures = (Inr (), example_fs_figures)"
  by (simp add: make_figures_dir_cases example_fs_figures_def)

lemma run_cell_3:
  "cell_3 example_formats example_fs_figures = (Inr example_dict_images, example_fs_figures)"
  by (simp add: cell_3_def io_defs classify_def add_image_def detector_def filter_name_def
      Let_def setdefault_def lookup_def initial_listing_def example_formats_def example_fs_figures_def
      example_files_def example_dict_images_def)

lemma run_cell_3_2:
  "cell_3_2 example_formats example_dict_images ''NRCB1'' ''F115W'' ''F200W'' example_fs_figures =
     (Inr ([example_image_1], [example_image_2]), example_fs_figures)"
  by (simp add: cell_3_2_def io_defs images_of_def lookup_def example_formats_def
      example_fs_figures_def example_files_def example_dict_images_def)

lemma run_cell_3_3:
  "cell_3_3 example_formats ''NRCB1'' ''F115W'' ''F200W'' example_fs_figures =
     (Inr ([example_catalog], [example_catalog_2]), example_fs_figures)"
  by (simp add: cell_3_3_def io_defs example_formats_def example_fs_figures_def
      example_files_def)

lemma run_read_csv:
  "read_csv example_formats input_cat example_fs_figures = (Inr example_lmc, example_fs_figures)"
  by (simp add: io_defs example_formats_def example_fs_figures_def example_files_def)

lemma run_photometry:
  "photometry sep_flat ''F115W'' ''F200W'' [example_image_1] [example_image_2]
     [example_catalog] [example_catalog_2] = Inr example_pairs"
  by (simp add: photometry_def clean_defs match_defs table_defs sep_flat_def
      example_image_1_def example_image_2_def example_catalog_def example_catalog_2_def
      example_pairs_def)

lemma run_comparison:
  "comparison sep_flat ''F115W'' ''F200W'' [example_image_1] example_pairs example_lmc =
     Inr example_figure"
  by (simp add: comparison_def cat_sel_def colour_magnitude_def match_defs table_defs
      sep_flat_def example_image_1_def example_lmc_def example_pairs_def example_figure_def)

lemma run_notebook:
  "notebook example_formats sep_flat ''NRCB1'' ''F115W'' ''F200W'' example_fs =
     (Inr example_figure, example_fs_figures)"
  by (simp only: notebook_def io_bind_def io_pure_def run_setup run_cell_3 run_cell_3_2
      run_cell_3_3 run_read_csv run_photometry run_comparison prod.case sum.case)

theorem notebook_leaves_file_system_witness:
  "snd (notebook example_formats sep_flat ''NRCB1'' ''F115W'' ''F200W'' example_fs) =
     example_fs_figures \<and>
   snd (notebook example_formats sep_flat ''NRCB1'' ''F115W'' ''F200W'' example_fs_figures) =
     example_fs_figures \<and>
   ''FIGURES'' \<notin> dirs example_fs_blocked \<and>
   map_of (files example_fs_blocked) ''FIGURES'' = Some ''not a directory'' \<and>
   fst (notebook example_formats sep_flat ''NRCB1'' ''F115W'' ''F200W'' example_fs_blocked) =
     Inl FileExistsError \<and>
   snd (notebook example_formats sep_flat ''NRCB1'' ''F115W'' ''F200W'' example_fs_blocked) =
     example_fs_blocked"
  using
    notebook_leaves_file_system
      [of example_formats sep_flat "''NRCB1''" "''F115W''" "''F200W''" example_fs]
    notebook_leaves_file_system
      [of example_formats sep_flat "''NRCB1''" "''F115W''" "''F200W''" example_fs_figures]
    notebook_leaves_file_system
      [of example_formats sep_flat "''NRCB1''" "''F115W''" "''F200W''" example_fs_blocked]
  by (simp add: example_fs_def example_fs_figures_def example_fs_blocked_def example_files_def)

text \<open>
  C7, as stated, fails: on a file system without \<^verbatim>\<open>FIGURES\<close> the run completes with its
  figure and leaves a file system that differs from the one it started on.
\<close>

theorem notebook_changes_file_system_counterexample:
  "fst (notebook example_formats sep_flat ''NRCB1'' ''F115W'' ''F200W'' example_fs) =
     Inr example_figure \<and>
   snd (notebook example_formats sep_flat ''NRCB1'' ''F115W'' ''F200W'' example_fs) \<noteq> example_fs"
proof -
  have "''FIGURES'' \<in> dirs example_fs_figures"
    by (simp add: example_fs_figures_def)
  moreover have "''FIGURES'' \<notin> dirs example_fs"
    by (simp add: example_fs_def)
  ultimately have "example_fs_figures \<noteq> example_fs"
    by auto
  then show ?thesis
    by (simp add: run_notebook)
qed

end
